theory Spec2Isabelle
  imports Complex_Main "HOL-Library.Option_ord"
begin

section \<open>Conventions of the embedding\<close>

text \<open>
  The backend is Python over SQLite. The embedding fixes the following reading of its data.
  \<^item> A \<open>datetime\<close> is an instant in UTC, counted in microseconds since the Unix epoch
    (Python's resolution). The service stores \<open>datetime.utcnow()\<close> and parses stored
    values back with a \<open>Z\<close> suffix, so every instant it handles is UTC.
    SQLite keeps the instants as ISO text and compares them as text; the embedding compares
    the instants themselves.
  \<^item> Python floats and SQLite REAL values are exact rationals (\<open>rat\<close>): rounding of
    binary floating point is outside the model.
  \<^item> Every exception that the modelled Python raises is a value of \<open>py_error\<close>, returned
    as \<open>Inl\<close>.
\<close>

type_synonym datetime = int

datatype py_error = ValueError | ZeroDivisionError | OverflowError | KeyError

section \<open>Dates and times\<close>

text \<open>
  \<open>timedelta(days, hours, minutes)\<close> as a number of microseconds, and the two ends of
  Python's \<open>datetime\<close> range (\<open>0001-01-01 00:00:00\<close> and
  \<open>9999-12-31 23:59:59.999999\<close>): adding a \<open>timedelta\<close> that leaves the range raises
  \<open>OverflowError\<close>.
\<close>

definition timedelta :: "int \<Rightarrow> int \<Rightarrow> int \<Rightarrow> int" where
  "timedelta days hours minutes = ((days * 24 + hours) * 60 + minutes) * 60000000"

definition datetime_min :: datetime where
  "datetime_min = - 62135596800000000"

definition datetime_max :: datetime where
  "datetime_max = 253402300799999999"

definition dt_add :: "datetime \<Rightarrow> int \<Rightarrow> py_error + datetime" where
  "dt_add t d =
     (if datetime_min \<le> t + d \<and> t + d \<le> datetime_max then Inr (t + d) else Inl OverflowError)"

text \<open>\<open>(b - a).total_seconds()\<close>.\<close>

definition total_seconds :: "datetime \<Rightarrow> datetime \<Rightarrow> rat" where
  "total_seconds b a = of_int (b - a) / 1000000"

text \<open>The fields \<open>minute\<close>, \<open>hour\<close> and \<open>weekday()\<close> (Monday is 0) of an instant.\<close>

definition minute_of :: "datetime \<Rightarrow> int" where
  "minute_of t = (t div 60000000) mod 60"

definition hour_of :: "datetime \<Rightarrow> int" where
  "hour_of t = (t div 3600000000) mod 24"

definition weekday :: "datetime \<Rightarrow> int" where
  "weekday t = (t div 86400000000 + 3) mod 7"

text \<open>
  \<open>replace(second=0, microsecond=0)\<close>, \<open>replace(minute=m)\<close>, \<open>replace(hour=h)\<close> and
  \<open>replace(hour=0, minute=0)\<close> (on an instant whose seconds are already zero).
  \<open>replace\<close> raises \<open>ValueError\<close> on a field out of range.
\<close>

definition replace_second_microsecond_0 :: "datetime \<Rightarrow> datetime" where
  "replace_second_microsecond_0 t = t - t mod 60000000"

definition replace_minute :: "datetime \<Rightarrow> int \<Rightarrow> py_error + datetime" where
  "replace_minute t m =
     (if 0 \<le> m \<and> m \<le> 59 then Inr (t + (m - minute_of t) * 60000000) else Inl ValueError)"

definition replace_hour :: "datetime \<Rightarrow> int \<Rightarrow> py_error + datetime" where
  "replace_hour t h =
     (if 0 \<le> h \<and> h \<le> 23 then Inr (t + (h - hour_of t) * 3600000000) else Inl ValueError)"

definition replace_hour_minute_0 :: "datetime \<Rightarrow> datetime" where
  "replace_hour_minute_0 t = t - (hour_of t * 60 + minute_of t) * 60000000"

text \<open>
  \<open>int(dt.timestamp() * 1000)\<close>: milliseconds since the epoch, truncated towards zero.
\<close>

definition timestamp_ms :: "datetime \<Rightarrow> int" where
  "timestamp_ms t = (if 0 \<le> t then t div 1000 else - ((- t) div 1000))"

subsection \<open>The proleptic Gregorian calendar\<close>

text \<open>
  Python's \<open>_is_leap\<close>, \<open>_days_before_year\<close>, \<open>_days_before_month\<close>, \<open>_ymd2ord\<close> and
  \<open>_ord2ymd\<close>; day 1 is \<open>0001-01-01\<close> and the epoch is day 719163.
\<close>

definition is_leap :: "int \<Rightarrow> bool" where
  "is_leap year = (year mod 4 = 0 \<and> (year mod 100 \<noteq> 0 \<or> year mod 400 = 0))"

definition days_before_year :: "int \<Rightarrow> int" where
  "days_before_year year = (let y = year - 1 in y * 365 + y div 4 - y div 100 + y div 400)"

definition DAYS_BEFORE_MONTH :: "int list" where
  "DAYS_BEFORE_MONTH = [- 1, 0, 31, 59, 90, 120, 151, 181, 212, 243, 273, 304, 334]"

definition DAYS_IN_MONTH :: "int list" where
  "DAYS_IN_MONTH = [- 1, 31, 28, 31, 30, 31, 30, 31, 31, 30, 31, 30, 31]"

definition days_before_month :: "int \<Rightarrow> int \<Rightarrow> int" where
  "days_before_month year month =
     DAYS_BEFORE_MONTH ! nat month + (if month > 2 \<and> is_leap year then 1 else 0)"

definition ymd2ord :: "int \<Rightarrow> int \<Rightarrow> int \<Rightarrow> int" where
  "ymd2ord year month day = days_before_year year + days_before_month year month + day"

definition ord2ymd :: "int \<Rightarrow> int \<times> int \<times> int" where
  "ord2ymd ordinal =
     (let n = ordinal - 1;
          n400 = n div 146097; n = n mod 146097;
          n100 = n div 36524; n = n mod 36524;
          n4 = n div 1461; n = n mod 1461;
          n1 = n div 365; n = n mod 365;
          year = n400 * 400 + 1 + n100 * 100 + n4 * 4 + n1
      in if n1 = 4 \<or> n100 = 4 then (year - 1, 12, 31)
         else
           let leapyear = (n1 = 3 \<and> (n4 \<noteq> 24 \<or> n100 = 3));
               month = (n + 50) div 32;
               preceding = DAYS_BEFORE_MONTH ! nat month + (if month > 2 \<and> leapyear then 1 else 0)
           in if preceding > n
              then (let month' = month - 1;
                        preceding' = preceding -
                          (DAYS_IN_MONTH ! nat month' + (if month' = 2 \<and> leapyear then 1 else 0))
                    in (year, month', n - preceding' + 1))
              else (year, month, n - preceding + 1))"

definition year_of :: "datetime \<Rightarrow> int" where
  "year_of t = fst (ord2ymd (t div 86400000000 + 719163))"

definition month_of :: "datetime \<Rightarrow> int" where
  "month_of t = fst (snd (ord2ymd (t div 86400000000 + 719163)))"

text \<open>Midnight of the first day of a month: \<open>datetime(year, month, 1)\<close>.\<close>

definition month_start :: "int \<Rightarrow> int \<Rightarrow> datetime" where
  "month_start year month = (ymd2ord year month 1 - 719163) * 86400000000"

section \<open>Resolution selection (\<open>Database._calculate_optimal_aggregation\<close>)\<close>

definition nice_buckets_minutes :: "rat list" where
  "nice_buckets_minutes =
     [1, 2, 3, 5, 10, 15, 20, 30, 60, 120, 180, 360, 720, 1440, 10080, 43200]"

definition nice_bucket_names :: "string list" where
  "nice_bucket_names =
     [''1min'', ''2min'', ''3min'', ''5min'', ''10min'', ''15min'', ''20min'', ''30min'',
      ''1hour'', ''2hour'', ''3hour'', ''6hour'', ''12hour'', ''1day'', ''1week'', ''1month'']"

text \<open>
  The \<open>for i, minutes in enumerate(nice_buckets_minutes)\<close> loop: the name at the first
  position whose width is at least the optimum, \<open>None\<close> when the loop falls through.
\<close>

fun first_nice_bucket :: "rat \<Rightarrow> rat list \<Rightarrow> string list \<Rightarrow> string option" where
  "first_nice_bucket optimal_minutes (minutes # ms) (name # ns) =
     (if minutes \<ge> optimal_minutes then Some name
      else first_nice_bucket optimal_minutes ms ns)"
| "first_nice_bucket optimal_minutes _ _ = None"

definition calculate_optimal_aggregation :: "int \<Rightarrow> rat \<Rightarrow> int \<Rightarrow> py_error + string" where
  "calculate_optimal_aggregation count time_span_seconds target_points =
     (if count \<le> target_points then Inr ''none''
      else if target_points = 0 then Inl ZeroDivisionError
      else
        let time_span_minutes = time_span_seconds / 60;
            optimal_minutes = time_span_minutes / of_int target_points
        in case first_nice_bucket optimal_minutes nice_buckets_minutes nice_bucket_names of
             Some name \<Rightarrow> Inr name
           | None \<Rightarrow> Inr ''1month'')"

section \<open>Parsing a resolution name\<close>

text \<open>
  \<open>str.endswith\<close>, the slice \<open>s[:-k]\<close> and \<open>int(s)\<close>. \<open>py_int\<close> reads an optional sign
  followed by ASCII digits and raises \<open>ValueError\<close> on anything else (the spellings with
  surrounding blanks, underscores or other digits, which Python's \<open>int\<close> also reads, are not
  part of the model).
\<close>

definition endswith :: "string \<Rightarrow> string \<Rightarrow> bool" where
  "endswith s suffix =
     (length suffix \<le> length s \<and> drop (length s - length suffix) s = suffix)"

definition drop_last :: "nat \<Rightarrow> string \<Rightarrow> string" where
  "drop_last k s = take (length s - k) s"

definition digit_val :: "char \<Rightarrow> int option" where
  "digit_val c =
     (let n = (of_char c :: nat) in if 48 \<le> n \<and> n \<le> 57 then Some (int n - 48) else None)"

fun parse_digits :: "int \<Rightarrow> string \<Rightarrow> int option" where
  "parse_digits acc [] = Some acc"
| "parse_digits acc (c # cs) =
     (case digit_val c of None \<Rightarrow> None | Some d \<Rightarrow> parse_digits (10 * acc + d) cs)"

definition py_int :: "string \<Rightarrow> py_error + int" where
  "py_int s =
     (let (sign, ds) =
            (case s of
               [] \<Rightarrow> (1, s)
             | c # cs \<Rightarrow> if c = CHR ''-'' then (- 1, cs) else if c = CHR ''+'' then (1, cs) else (1, s))
      in if ds = [] then Inl ValueError
         else case parse_digits 0 ds of None \<Rightarrow> Inl ValueError | Some n \<Rightarrow> Inr (sign * n))"

section \<open>Energy readings and their interpolation\<close>

text \<open>
  A row of \<open>energy_readings\<close>, and the same row with the key \<open>time_ms\<close> added
  (\<open>{**r, 'time_ms': int(dt.timestamp() * 1000)}\<close>).
\<close>

record energy_reading =
  e_timestamp :: datetime
  e_meter_id :: string
  phase :: string
  total_kwh :: rat

record reading_ms = energy_reading +
  time_ms :: int

definition with_ms :: "energy_reading \<Rightarrow> reading_ms" where
  "with_ms r =
     \<lparr>e_timestamp = e_timestamp r, e_meter_id = e_meter_id r, phase = phase r,
      total_kwh = total_kwh r, time_ms = timestamp_ms (e_timestamp r)\<rparr>"

text \<open>
  The preprocessing both delta calculators share: add \<open>time_ms\<close> to every row, then
  \<open>sort(key=lambda x: x['time_ms'])\<close>, a stable sort.
\<close>

definition preprocess :: "energy_reading list \<Rightarrow> reading_ms list" where
  "preprocess energy_readings = sort_key time_ms (map with_ms energy_readings)"

text \<open>\<open>bisect.bisect_left(a, x)\<close>, the binary search of the standard library.\<close>

function bisect_left_loop :: "int list \<Rightarrow> int \<Rightarrow> nat \<Rightarrow> nat \<Rightarrow> nat" where
  "bisect_left_loop a x lo hi =
     (if lo < hi then
        (let mid = (lo + hi) div 2
         in if a ! mid < x then bisect_left_loop a x (mid + 1) hi
            else bisect_left_loop a x lo mid)
      else lo)"
  by pat_completeness auto
termination
  by (relation "measure (\<lambda>(a, x, lo, hi). hi - lo)") auto

declare bisect_left_loop.simps [simp del]

definition bisect_left :: "int list \<Rightarrow> int \<Rightarrow> nat" where
  "bisect_left a x = bisect_left_loop a x 0 (length a)"

text \<open>\<open>Database._interpolate_kwh_at_time\<close>; \<open>None\<close> is Python's \<open>None\<close>.\<close>

definition interpolate_kwh_at_time :: "reading_ms list \<Rightarrow> int \<Rightarrow> rat option" where
  "interpolate_kwh_at_time readings_with_ms target_time_ms =
     (if readings_with_ms = [] then None
      else
        let times = map time_ms readings_with_ms;
            idx = bisect_left times target_time_ms
        in if idx < length readings_with_ms \<and> times ! idx = target_time_ms
           then Some (total_kwh (readings_with_ms ! idx))
           else if idx = 0 then Some (total_kwh (readings_with_ms ! 0))
           else if idx \<ge> length readings_with_ms then Some (total_kwh (last readings_with_ms))
           else
             let before_reading = readings_with_ms ! (idx - 1);
                 after_reading = readings_with_ms ! idx;
                 time_diff = time_ms after_reading - time_ms before_reading;
                 kwh_diff = total_kwh after_reading - total_kwh before_reading
             in if time_diff = 0 then Some (total_kwh before_reading)
                else
                  let ratio = of_int (target_time_ms - time_ms before_reading) / of_int time_diff
                  in Some (total_kwh before_reading + kwh_diff * ratio))"

section \<open>Bucket boundaries\<close>

text \<open>
  A bucket dictionary. The key \<open>bucket_start\<close> is absent (\<open>None\<close>) where the source does
  not store it; the display label is left out.
\<close>

record bucket =
  start_ms :: int
  end_ms :: int
  bucket_start :: "datetime option"

definition mk_bucket :: "bool \<Rightarrow> datetime \<Rightarrow> datetime \<Rightarrow> bucket" where
  "mk_bucket keep bucket_start' bucket_end =
     \<lparr>start_ms = timestamp_ms bucket_start', end_ms = timestamp_ms bucket_end,
      bucket_start = (if keep then Some bucket_start' else None)\<rparr>"

text \<open>
  The loop \<open>while current <= end_time\<close> that appends a bucket and advances \<open>current\<close> by
  a fixed \<open>timedelta\<close>. With a zero step the Python loop does not return: the value is
  \<open>None\<close> then. \<open>keep\<close> tells whether the dictionary gets the key \<open>bucket_start\<close>;
  \<open>mk_bucket\<close> builds the dictionary from \<open>bucket_start\<close> and \<open>bucket_end\<close>.
\<close>

partial_function (option) bucket_loop ::
  "bool \<Rightarrow> int \<Rightarrow> datetime \<Rightarrow> datetime \<Rightarrow> bucket list \<Rightarrow> (py_error + bucket list) option" where
  "bucket_loop keep step end_time current buckets =
     (if current \<le> end_time then
        (if datetime_min \<le> current + step \<and> current + step \<le> datetime_max then
           bucket_loop keep step end_time (current + step)
             (buckets @ [mk_bucket keep current (current + step)])
         else Some (Inl OverflowError))
      else Some (Inr buckets))"

text \<open>
  The month loop. \<open>current\<close> is always midnight of the first of a month, so the loop
  variable is its pair of fields \<open>year\<close> and \<open>month\<close>; \<open>replace\<close> raises \<open>ValueError\<close>
  beyond year 9999 or month 12.
\<close>

function month_loop ::
  "bool \<Rightarrow> datetime \<Rightarrow> int \<Rightarrow> int \<Rightarrow> bucket list \<Rightarrow> py_error + bucket list" where
  "month_loop keep end_time year month buckets =
     (if month_start year month \<le> end_time then
        (if month = 12 then
           (if 1 \<le> year + 1 \<and> year + 1 \<le> 9999 then
              month_loop keep end_time (year + 1) 1
                (buckets @ [mk_bucket keep (month_start year month) (month_start (year + 1) 1)])
            else Inl ValueError)
         else
           (if 1 \<le> month + 1 \<and> month + 1 \<le> 12 then
              month_loop keep end_time year (month + 1)
                (buckets @ [mk_bucket keep (month_start year month) (month_start year (month + 1))])
            else Inl ValueError))
      else Inr buckets)"
  by pat_completeness auto
termination
  by (relation "measures [\<lambda>(keep, end_time, year, month, buckets). nat (9999 - year),
                          \<lambda>(keep, end_time, year, month, buckets). nat (12 - month)]") auto

declare month_loop.simps [simp del]

declare bucket_loop.simps [code]

text \<open>
  The branches for hour, day, week and month resolutions, which the two delta calculators
  write out identically (up to the key \<open>bucket_start\<close>). \<open>current\<close> is
  \<open>start_time.replace(second=0, microsecond=0)\<close>.
\<close>

definition coarse_buckets ::
  "bool \<Rightarrow> string \<Rightarrow> datetime \<Rightarrow> datetime \<Rightarrow> (py_error + bucket list) option" where
  "coarse_buckets keep aggregation current end_time =
     (if endswith aggregation ''hour'' then
        (case py_int (drop_last 4 aggregation) of
           Inl e \<Rightarrow> Some (Inl e)
         | Inr hours \<Rightarrow>
             (let current = current - minute_of current * 60000000
              in if hours = 0 then Some (Inl ZeroDivisionError)
                 else case replace_hour current ((hour_of current div hours) * hours) of
                        Inl e \<Rightarrow> Some (Inl e)
                      | Inr current \<Rightarrow> bucket_loop keep (timedelta 0 hours 0) end_time current []))
      else if endswith aggregation ''day'' then
        (case py_int (drop_last 3 aggregation) of
           Inl e \<Rightarrow> Some (Inl e)
         | Inr days \<Rightarrow>
             bucket_loop keep (timedelta days 0 0) end_time (replace_hour_minute_0 current) [])
      else if aggregation = ''1week'' then
        (let current = replace_hour_minute_0 current;
             days_since_sunday = (if weekday current \<noteq> 6 then weekday current + 1 else 0)
         in case dt_add current (- timedelta days_since_sunday 0 0) of
              Inl e \<Rightarrow> Some (Inl e)
            | Inr current \<Rightarrow> bucket_loop keep (timedelta 7 0 0) end_time current [])
      else if aggregation = ''1month'' then
        Some (month_loop keep end_time (year_of current) (month_of current) [])
      else Some (Inr []))"

section \<open>Energy deltas per bucket\<close>

text \<open>An entry of the returned list: the bucket's start and its consumption.\<close>

record delta =
  d_timestamp :: datetime
  energy_kwh :: rat

text \<open>
  \<open>Database._calculate_energy_deltas_with_interpolation\<close>: first the buckets, then the
  loop over them. Reading the absent key \<open>bucket_start\<close> raises \<open>KeyError\<close>.
\<close>

definition interpolation_buckets ::
  "string \<Rightarrow> datetime \<Rightarrow> datetime \<Rightarrow> (py_error + bucket list) option" where
  "interpolation_buckets aggregation start_time end_time =
     (let current = replace_second_microsecond_0 start_time
      in if endswith aggregation ''min'' then
           (case py_int (drop_last 3 aggregation) of
              Inl e \<Rightarrow> Some (Inl e)
            | Inr minutes \<Rightarrow>
                if minutes = 0 then Some (Inl ZeroDivisionError)
                else case replace_minute current ((minute_of current div minutes) * minutes) of
                       Inl e \<Rightarrow> Some (Inl e)
                     | Inr current \<Rightarrow> bucket_loop True (timedelta 0 0 minutes) end_time current [])
         else coarse_buckets False aggregation current end_time)"

fun interpolation_deltas :: "reading_ms list \<Rightarrow> bucket list \<Rightarrow> py_error + delta list" where
  "interpolation_deltas readings_with_ms [] = Inr []"
| "interpolation_deltas readings_with_ms (b # buckets) =
     (case (interpolate_kwh_at_time readings_with_ms (start_ms b),
            interpolate_kwh_at_time readings_with_ms (end_ms b)) of
        (Some start_kwh, Some end_kwh) \<Rightarrow>
          (let delta = end_kwh - start_kwh
           in if delta \<ge> 0 then
                (case bucket_start b of
                   None \<Rightarrow> Inl KeyError
                 | Some t \<Rightarrow>
                     (case interpolation_deltas readings_with_ms buckets of
                        Inl e \<Rightarrow> Inl e
                      | Inr result \<Rightarrow> Inr (\<lparr>d_timestamp = t, energy_kwh = delta\<rparr> # result)))
              else interpolation_deltas readings_with_ms buckets)
      | _ \<Rightarrow> interpolation_deltas readings_with_ms buckets)"

definition calculate_energy_deltas_with_interpolation ::
  "energy_reading list \<Rightarrow> string \<Rightarrow> datetime \<Rightarrow> datetime \<Rightarrow> (py_error + delta list) option" where
  "calculate_energy_deltas_with_interpolation energy_readings aggregation start_time end_time =
     (if length energy_readings < 2 then Some (Inr [])
      else case interpolation_buckets aggregation start_time end_time of
             None \<Rightarrow> None
           | Some (Inl e) \<Rightarrow> Some (Inl e)
           | Some (Inr buckets) \<Rightarrow>
               Some (interpolation_deltas (preprocess energy_readings) buckets))"

text \<open>
  \<open>Database._calculate_energy_deltas_without_interpolation\<close>. The inner loop keeps the
  first and the last reading with \<open>start_ms <= time_ms < end_ms\<close>.
\<close>

fun first_last ::
  "bucket \<Rightarrow> reading_ms list \<Rightarrow> reading_ms option \<Rightarrow> reading_ms option \<Rightarrow>
   reading_ms option \<times> reading_ms option" where
  "first_last b [] first_reading last_reading = (first_reading, last_reading)"
| "first_last b (reading # rs) first_reading last_reading =
     (if start_ms b \<le> time_ms reading \<and> time_ms reading < end_ms b then
        first_last b rs (if first_reading = None then Some reading else first_reading) (Some reading)
      else first_last b rs first_reading last_reading)"

fun first_last_deltas :: "reading_ms list \<Rightarrow> bucket list \<Rightarrow> py_error + delta list" where
  "first_last_deltas readings_with_ms [] = Inr []"
| "first_last_deltas readings_with_ms (b # buckets) =
     (case first_last b readings_with_ms None None of
        (Some first_reading, Some last_reading) \<Rightarrow>
          (let delta = total_kwh last_reading - total_kwh first_reading
           in if delta \<ge> 0 then
                (case bucket_start b of
                   None \<Rightarrow> Inl KeyError
                 | Some t \<Rightarrow>
                     (case first_last_deltas readings_with_ms buckets of
                        Inl e \<Rightarrow> Inl e
                      | Inr result \<Rightarrow> Inr (\<lparr>d_timestamp = t, energy_kwh = delta\<rparr> # result)))
              else first_last_deltas readings_with_ms buckets)
      | _ \<Rightarrow> first_last_deltas readings_with_ms buckets)"

definition calculate_energy_deltas_without_interpolation ::
  "energy_reading list \<Rightarrow> string \<Rightarrow> datetime \<Rightarrow> datetime \<Rightarrow> (py_error + delta list) option" where
  "calculate_energy_deltas_without_interpolation energy_readings aggregation start_time end_time =
     (if length energy_readings < 2 then Some (Inr [])
      else case coarse_buckets True aggregation (replace_second_microsecond_0 start_time) end_time of
             None \<Rightarrow> None
           | Some (Inl e) \<Rightarrow> Some (Inl e)
           | Some (Inr buckets) \<Rightarrow>
               Some (first_last_deltas (preprocess energy_readings) buckets))"

section \<open>The store\<close>

text \<open>
  The tables \<open>meters\<close> (keyed by \<open>meter_id\<close>), \<open>readings\<close> and \<open>energy_readings\<close>
  (in insertion order). \<open>enabled\<close> is stored as an integer.
\<close>

record meter_row =
  m_ip_address :: string
  m_name :: "string option"
  m_location :: "string option"
  m_enabled :: int
  m_poll_interval :: rat
  m_energy_poll_interval :: rat
  m_last_seen :: "datetime option"
  m_created_at :: datetime

record reading_row =
  r_id :: int
  r_timestamp :: datetime
  r_meter_id :: string
  voltage_rms :: rat
  current_rms :: rat
  active_power :: rat
  reactive_power :: rat
  apparent_power :: rat
  power_factor :: rat
  frequency :: rat

record database =
  meters :: "string \<rightharpoonup> meter_row"
  readings :: "reading_row list"
  energy_readings :: "energy_reading list"

text \<open>The pydantic model \<open>Meter\<close>.\<close>

record meter =
  meter_id :: string
  ip_address :: string
  name :: "string option"
  location :: "string option"
  enabled :: bool
  poll_interval :: rat
  energy_poll_interval :: rat

text \<open>
  \<open>Database.register_meter\<close>: \<open>INSERT ... ON CONFLICT(meter_id) DO UPDATE SET
  ip_address=excluded.ip_address, last_seen=excluded.last_seen\<close>. \<open>utcnow\<close> is the value of
  \<open>datetime.utcnow()\<close> (also taken for the column default \<open>CURRENT_TIMESTAMP\<close>).
\<close>

definition register_meter :: "database \<Rightarrow> meter \<Rightarrow> datetime \<Rightarrow> database" where
  "register_meter db meter utcnow =
     (case meters db (meter_id meter) of
        None \<Rightarrow>
          db\<lparr>meters := (meters db)(meter_id meter \<mapsto>
               \<lparr>m_ip_address = ip_address meter, m_name = name meter, m_location = location meter,
                m_enabled = (if enabled meter then 1 else 0),
                m_poll_interval = poll_interval meter,
                m_energy_poll_interval = energy_poll_interval meter,
                m_last_seen = Some utcnow, m_created_at = utcnow\<rparr>)\<rparr>
      | Some row \<Rightarrow>
          db\<lparr>meters := (meters db)(meter_id meter \<mapsto>
               row\<lparr>m_ip_address := ip_address meter, m_last_seen := Some utcnow\<rparr>)\<rparr>)"

section \<open>Energy queries\<close>

text \<open>
  \<open>Database.get_energy_readings\<close>: the rows of a meter (and of one phase, unless the phase
  is empty or \<open>ALL\<close>) with \<open>timestamp BETWEEN start_time AND end_time\<close>, ordered by
  timestamp; rows with equal timestamps stay in table order.
\<close>

definition get_energy_readings ::
  "database \<Rightarrow> string \<Rightarrow> datetime \<Rightarrow> datetime \<Rightarrow> string option \<Rightarrow> energy_reading list" where
  "get_energy_readings db meter_id' start_time end_time phase' =
     (case phase' of
        Some p \<Rightarrow>
          if p \<noteq> [] \<and> p \<noteq> ''ALL'' then
            sort_key e_timestamp
              (filter (\<lambda>r. e_meter_id r = meter_id' \<and> phase r = p \<and>
                            start_time \<le> e_timestamp r \<and> e_timestamp r \<le> end_time)
                 (energy_readings db))
          else
            sort_key e_timestamp
              (filter (\<lambda>r. e_meter_id r = meter_id' \<and>
                            start_time \<le> e_timestamp r \<and> e_timestamp r \<le> end_time)
                 (energy_readings db))
      | None \<Rightarrow>
          sort_key e_timestamp
            (filter (\<lambda>r. e_meter_id r = meter_id' \<and>
                          start_time \<le> e_timestamp r \<and> e_timestamp r \<le> end_time)
               (energy_readings db)))"

text \<open>
  \<open>Database.get_energy_aggregated\<close>; the field \<open>query_time_seconds\<close> (wall-clock time) is
  left out of the result.
\<close>

record energy_result =
  aggregated :: "delta list"
  raw_total_kwh :: rat
  raw_readings_count :: nat
  e_aggregation_applied :: string

definition get_energy_aggregated ::
  "database \<Rightarrow> string \<Rightarrow> datetime \<Rightarrow> datetime \<Rightarrow> string \<Rightarrow> string \<Rightarrow>
   (py_error + energy_result) option" where
  "get_energy_aggregated db meter_id' start_time end_time phase' aggregation =
     (let raw_readings = get_energy_readings db meter_id' start_time end_time (Some phase');
          raw_total =
            (if length raw_readings \<ge> 2
             then total_kwh (last raw_readings) - total_kwh (hd raw_readings) else 0)
      in case (if aggregation = ''auto''
               then calculate_optimal_aggregation (int (length raw_readings))
                      (total_seconds end_time start_time) 10000
               else Inr aggregation) of
           Inl e \<Rightarrow> Some (Inl e)
         | Inr aggregation \<Rightarrow>
             (case (if aggregation \<noteq> ''none'' \<and> length raw_readings \<ge> 2 then
                      (if endswith aggregation ''min''
                       then calculate_energy_deltas_with_interpolation
                              raw_readings aggregation start_time end_time
                       else calculate_energy_deltas_without_interpolation
                              raw_readings aggregation start_time end_time)
                    else Some (Inr [])) of
                None \<Rightarrow> None
              | Some (Inl e) \<Rightarrow> Some (Inl e)
              | Some (Inr deltas) \<Rightarrow>
                  Some (Inr \<lparr>aggregated = deltas, raw_total_kwh = raw_total,
                             raw_readings_count = length raw_readings,
                             e_aggregation_applied = aggregation\<rparr>)))"

section \<open>Historical readings\<close>


definition sql_div :: "int \<Rightarrow> int \<Rightarrow> int option" where
  "sql_div a b = (if b = 0 then None else Some (sgn a * sgn b * (\<bar>a\<bar> div \<bar>b\<bar>)))"



definition strftime_H :: "datetime \<Rightarrow> int" where
  "strftime_H t = hour_of t"

definition start_of_hour :: "datetime \<Rightarrow> datetime" where
  "start_of_hour t = t - t mod 3600000000"










text \<open>
  The aggregating query: \<open>AVG\<close> of every column per value of the grouping expression,
  \<open>ORDER BY timestamp DESC\<close> on the grouping's value (NULL last), then the limit.
\<close>

definition avg :: "('a \<Rightarrow> rat) \<Rightarrow> 'a list \<Rightarrow> rat" where
  "avg f rows = sum_list (map f rows) / of_nat (length rows)"





section \<open>Retention compaction (\<open>Database.aggregate_old_data\<close>)\<close>

text \<open>
  The \<open>INSERT ... SELECT ... GROUP BY meter_id, day, hour / aggregation_hours HAVING
  COUNT(*) > 1\<close> over the rows older than the cutoff. The inserted timestamp is
  \<open>datetime(strftime('%Y-%m-%d %H:00:00', timestamp), '+N hours')\<close> with
  \<open>N = hour / aggregation_hours * aggregation_hours\<close>; a NULL there violates
  \<open>NOT NULL\<close>, and the statement fails as a whole. SQLite takes \<open>timestamp\<close> from some
  row of the group (the model: from the last one; with \<open>aggregation_hours = 1\<close>, which is
  what the service passes, all rows of a group give the same value). New rows get fresh,
  increasing ids, group by group in the order in which the groups first occur.
\<close>

definition old_group_key :: "int \<Rightarrow> reading_row \<Rightarrow> string \<times> int \<times> int option" where
  "old_group_key aggregation_hours r =
     (r_meter_id r, r_timestamp r div 86400000000,
      sql_div (strftime_H (r_timestamp r)) aggregation_hours)"

definition aggregated_timestamp :: "int \<Rightarrow> datetime \<Rightarrow> datetime option" where
  "aggregated_timestamp aggregation_hours t =
     (case sql_div (strftime_H t) aggregation_hours of
        None \<Rightarrow> None
      | Some q \<Rightarrow> Some (start_of_hour t + (q * aggregation_hours) * 3600000000))"

definition fresh_id :: "reading_row list \<Rightarrow> int" where
  "fresh_id rows = fold max (map r_id rows) 0 + 1"

fun insert_aggregates ::
  "int \<Rightarrow> reading_row list \<Rightarrow> (string \<times> int \<times> int option) list \<Rightarrow> reading_row list \<Rightarrow>
   reading_row list option" where
  "insert_aggregates aggregation_hours old [] table = Some table"
| "insert_aggregates aggregation_hours old (k # ks) table =
     (let grp = filter (\<lambda>r. old_group_key aggregation_hours r = k) old
      in if length grp > 1 then
           (case aggregated_timestamp aggregation_hours (r_timestamp (last grp)) of
              None \<Rightarrow> None
            | Some t \<Rightarrow>
                insert_aggregates aggregation_hours old ks
                  (table @ [\<lparr>r_id = fresh_id table, r_timestamp = t, r_meter_id = fst k,
                             voltage_rms = avg voltage_rms grp, current_rms = avg current_rms grp,
                             active_power = avg active_power grp,
                             reactive_power = avg reactive_power grp,
                             apparent_power = avg apparent_power grp,
                             power_factor = avg power_factor grp,
                             frequency = avg frequency grp\<rparr>]))
         else insert_aggregates aggregation_hours old ks table)"

text \<open>
  The \<open>DELETE\<close>: every row older than the cutoff goes, except the one with the largest id
  in its group of meter and hour (\<open>strftime('%Y-%m-%d %H:00:00', timestamp)\<close>).
\<close>

definition kept_ids :: "datetime \<Rightarrow> reading_row list \<Rightarrow> int list" where
  "kept_ids cutoff_date table =
     (let old = filter (\<lambda>r. r_timestamp r < cutoff_date) table
      in map (\<lambda>k. fold max (map r_id (filter (\<lambda>r. (r_meter_id r, start_of_hour (r_timestamp r)) = k) old))
                     (r_id (hd (filter (\<lambda>r. (r_meter_id r, start_of_hour (r_timestamp r)) = k) old))))
           (remdups (map (\<lambda>r. (r_meter_id r, start_of_hour (r_timestamp r))) old)))"

definition delete_old :: "datetime \<Rightarrow> reading_row list \<Rightarrow> reading_row list" where
  "delete_old cutoff_date table =
     filter (\<lambda>r. \<not> (r_timestamp r < cutoff_date \<and> r_id r \<notin> set (kept_ids cutoff_date table))) table"

text \<open>
  The whole pass: the new table and the number of deleted rows. On an exception the
  function returns 0 and the table stays as it was.
\<close>

definition aggregate_old_data :: "database \<Rightarrow> datetime \<Rightarrow> int \<Rightarrow> int \<Rightarrow> database \<times> int" where
  "aggregate_old_data db utcnow days_old aggregation_hours =
     (case dt_add utcnow (- timedelta days_old 0 0) of
        Inl e \<Rightarrow> (db, 0)
      | Inr cutoff_date \<Rightarrow>
          (let old = filter (\<lambda>r. r_timestamp r < cutoff_date) (readings db)
           in case insert_aggregates aggregation_hours old
                     (remdups (map (old_group_key aggregation_hours) old)) (readings db) of
                None \<Rightarrow> (db, 0)
              | Some table \<Rightarrow>
                  (let table' = delete_old cutoff_date table
                   in (db\<lparr>readings := table'\<rparr>, int (length table) - int (length table')))))"

section \<open>The pollers\<close>

text \<open>
  \<open>MeterPoller\<close> and \<open>EnergyPoller\<close> keep the same state: the dictionaries \<open>meters\<close>
  and \<open>tasks\<close> and the flag \<open>running\<close>. A task is named by its handle. What a call
  does to tasks is returned as a list of events next to the new state.
\<close>

type_synonym task = nat

datatype task_event = Create task | Cancel task | Await task

record poller =
  p_meters :: "string \<rightharpoonup> meter"
  tasks :: "string \<rightharpoonup> task"
  running :: bool

text \<open>
  \<open>add_meter\<close> (the same text in both classes); \<open>new_task\<close> is the handle that
  \<open>asyncio.create_task\<close> returns.
\<close>

definition add_meter :: "poller \<Rightarrow> meter \<Rightarrow> task \<Rightarrow> task_event list \<times> poller" where
  "add_meter self meter new_task =
     (let self = self\<lparr>p_meters := (p_meters self)(meter_id meter \<mapsto> meter)\<rparr>
      in if enabled meter \<and> running self
         then ([Create new_task], self\<lparr>tasks := (tasks self)(meter_id meter \<mapsto> new_task)\<rparr>)
         else ([], self))"

text \<open>
  \<open>remove_meter\<close> (the same text in both classes). Awaiting the cancelled task raises
  \<open>CancelledError\<close>, which the method swallows.
\<close>

definition remove_meter :: "poller \<Rightarrow> string \<Rightarrow> task_event list \<times> poller" where
  "remove_meter self meter_id' =
     (let (events, self) =
            (case tasks self meter_id' of
               Some t \<Rightarrow> ([Cancel t, Await t], self\<lparr>tasks := (tasks self)(meter_id' := None)\<rparr>)
             | None \<Rightarrow> ([], self))
      in if p_meters self meter_id' \<noteq> None
         then (events, self\<lparr>p_meters := (p_meters self)(meter_id' := None)\<rparr>)
         else (events, self))"

text \<open>
  One pass through the body of \<open>while self.running and meter.enabled\<close> in
  \<open>MeterPoller._poll_meter\<close> and \<open>EnergyPoller._poll_energy\<close>. The outcome of the
  \<open>try\<close> block is: the reading was fetched and stored, the fetch returned nothing, or an
  exception was raised (before the counter was reset). The result is the number of seconds
  slept and the counter after the pass.
\<close>

datatype poll_outcome = Stored | Nothing | Raised

definition max_failures :: nat where
  "max_failures = 5"

definition poll_meter_step :: "meter \<Rightarrow> nat \<Rightarrow> poll_outcome \<Rightarrow> rat \<times> nat" where
  "poll_meter_step meter consecutive_failures outcome =
     (let consecutive_failures =
            (case outcome of
               Stored \<Rightarrow> 0
             | Nothing \<Rightarrow> consecutive_failures + 1
             | Raised \<Rightarrow> consecutive_failures + 1)
      in if consecutive_failures \<ge> max_failures then (30, 0)
         else (poll_interval meter, consecutive_failures))"

definition poll_energy_step :: "meter \<Rightarrow> nat \<Rightarrow> poll_outcome \<Rightarrow> rat \<times> nat" where
  "poll_energy_step meter consecutive_failures outcome =
     (let consecutive_failures =
            (case outcome of
               Stored \<Rightarrow> 0
             | Nothing \<Rightarrow> consecutive_failures + 1
             | Raised \<Rightarrow> consecutive_failures + 1)
      in if consecutive_failures \<ge> max_failures then (60, 0)
         else (energy_poll_interval meter, consecutive_failures))"

text \<open>
  The loop over a sequence of outcomes: the sleeps in order and the final counter.
\<close>

fun poll_loop ::
  "(nat \<Rightarrow> poll_outcome \<Rightarrow> rat \<times> nat) \<Rightarrow> nat \<Rightarrow> poll_outcome list \<Rightarrow> rat list \<times> nat" where
  "poll_loop step consecutive_failures [] = ([], consecutive_failures)"
| "poll_loop step consecutive_failures (outcome # outcomes) =
     (let (sleep, consecutive_failures) = step consecutive_failures outcome;
          (sleeps, final) = poll_loop step consecutive_failures outcomes
      in (sleep # sleeps, final))"

definition poll_meter :: "meter \<Rightarrow> poll_outcome list \<Rightarrow> rat list \<times> nat" where
  "poll_meter meter outcomes = poll_loop (poll_meter_step meter) 0 outcomes"

definition poll_energy :: "meter \<Rightarrow> poll_outcome list \<Rightarrow> rat list \<times> nat" where
  "poll_energy meter outcomes = poll_loop (poll_energy_step meter) 0 outcomes"

section \<open>Notions used in the statements\<close>






section \<open>Concrete stores and pollers\<close>

text \<open>Inputs on which the statements below are evaluated.\<close>

definition example_row :: meter_row where
  "example_row =
     \<lparr>m_ip_address = ''192.168.1.100'', m_name = Some ''Main Panel'', m_location = Some ''Garage'',
      m_enabled = 0, m_poll_interval = 2, m_energy_poll_interval = 45,
      m_last_seen = Some 100, m_created_at = 50\<rparr>"

definition example_meter :: meter where
  "example_meter =
     \<lparr>meter_id = ''meter_001'', ip_address = ''192.168.1.77'', name = None, location = None,
      enabled = True, poll_interval = 1, energy_poll_interval = 30\<rparr>"

definition example_store :: database where
  "example_store =
     \<lparr>meters = [''meter_001'' \<mapsto> example_row], readings = [], energy_readings = []\<rparr>"

definition disabled_meter :: meter where
  "disabled_meter =
     \<lparr>meter_id = ''meter_002'', ip_address = ''192.168.1.101'', name = None, location = None,
      enabled = False, poll_interval = 1, energy_poll_interval = 30\<rparr>"

definition started_poller :: poller where
  "started_poller = \<lparr>p_meters = Map.empty, tasks = Map.empty, running = True\<rparr>"

definition polling_poller :: poller where
  "polling_poller =
     \<lparr>p_meters = [''meter_001'' \<mapsto> example_meter, ''meter_002'' \<mapsto> disabled_meter],
      tasks = [''meter_001'' \<mapsto> 7], running = True\<rparr>"




definition reset_readings :: "energy_reading list" where
  "reset_readings =
     [\<lparr>e_timestamp = 600000000, e_meter_id = ''meter_001'', phase = ''A'', total_kwh = 5\<rparr>,
      \<lparr>e_timestamp = 4200000000, e_meter_id = ''meter_001'', phase = ''A'', total_kwh = 7\<rparr>,
      \<lparr>e_timestamp = 6600000000, e_meter_id = ''meter_001'', phase = ''A'', total_kwh = 9\<rparr>,
      \<lparr>e_timestamp = 7800000000, e_meter_id = ''meter_001'', phase = ''A'', total_kwh = 1\<rparr>,
      \<lparr>e_timestamp = 9000000000, e_meter_id = ''meter_001'', phase = ''A'', total_kwh = 2\<rparr>]"

definition reset_store :: database where
  "reset_store = \<lparr>meters = Map.empty, readings = [], energy_readings = reset_readings\<rparr>"

text \<open>
  The delta that each strategy computes for a bucket, \<open>None\<close> where it computes none:
  interpolated(end) minus interpolated(start), and the last minus the first of the readings
  inside the bucket. \<open>kept_entry\<close> is the entry a bucket contributes: none when it has no
  delta or a negative one.
\<close>

definition interpolated_delta :: "reading_ms list \<Rightarrow> bucket \<Rightarrow> rat option" where
  "interpolated_delta rs b =
     (case (interpolate_kwh_at_time rs (start_ms b), interpolate_kwh_at_time rs (end_ms b)) of
        (Some start_kwh, Some end_kwh) \<Rightarrow> Some (end_kwh - start_kwh)
      | _ \<Rightarrow> None)"

definition inside :: "bucket \<Rightarrow> reading_ms list \<Rightarrow> reading_ms list" where
  "inside b rs = filter (\<lambda>r. start_ms b \<le> time_ms r \<and> time_ms r < end_ms b) rs"

definition first_last_delta :: "reading_ms list \<Rightarrow> bucket \<Rightarrow> rat option" where
  "first_last_delta rs b =
     (if inside b rs = [] then None
      else Some (total_kwh (last (inside b rs)) - total_kwh (hd (inside b rs))))"

definition kept_entry :: "(bucket \<Rightarrow> rat option) \<Rightarrow> bucket \<Rightarrow> delta option" where
  "kept_entry d b =
     (case (d b, bucket_start b) of
        (Some x, Some c) \<Rightarrow> if 0 \<le> x then Some \<lparr>d_timestamp = c, energy_kwh = x\<rparr> else None
      | _ \<Rightarrow> None)"

definition minute_readings :: "energy_reading list" where
  "minute_readings =
     [\<lparr>e_timestamp = 0, e_meter_id = ''meter_001'', phase = ''A'', total_kwh = 0\<rparr>,
      \<lparr>e_timestamp = 60000000, e_meter_id = ''meter_001'', phase = ''A'', total_kwh = 1\<rparr>,
      \<lparr>e_timestamp = 120000000, e_meter_id = ''meter_001'', phase = ''A'', total_kwh = 2\<rparr>,
      \<lparr>e_timestamp = 180000000, e_meter_id = ''meter_001'', phase = ''A'', total_kwh = 3\<rparr>]"


text \<open>
  The buckets and the delta of an energy query at a resolution, as
  \<open>get_energy_aggregated\<close> dispatches on the name: interpolation for a name ending in
  \<open>min\<close>, first and last reading otherwise.
\<close>

definition energy_buckets :: "string \<Rightarrow> datetime \<Rightarrow> datetime \<Rightarrow> (py_error + bucket list) option" where
  "energy_buckets a t0 t1 =
     (if endswith a ''min'' then interpolation_buckets a t0 t1
      else coarse_buckets True a (replace_second_microsecond_0 t0) t1)"

definition computed_delta :: "string \<Rightarrow> reading_ms list \<Rightarrow> bucket \<Rightarrow> rat option" where
  "computed_delta a rs = (if endswith a ''min'' then interpolated_delta rs else first_last_delta rs)"

text \<open>
  Two raw rows of one meter in the hour from 13:00 on 2020-01-01, at 13:10 and 13:20.
\<close>

definition hour_rows :: "reading_row list" where
  "hour_rows =
     [\<lparr>r_id = 1, r_timestamp = 1577884200000000, r_meter_id = ''meter_001'', voltage_rms = 230,
       current_rms = 1, active_power = 100, reactive_power = 0, apparent_power = 100,
       power_factor = 1, frequency = 50\<rparr>,
      \<lparr>r_id = 2, r_timestamp = 1577884800000000, r_meter_id = ''meter_001'', voltage_rms = 232,
       current_rms = 3, active_power = 200, reactive_power = 0, apparent_power = 200,
       power_factor = 1, frequency = 50\<rparr>]"

definition hour_store :: database where
  "hour_store = \<lparr>meters = Map.empty, readings = hour_rows, energy_readings = []\<rparr>"



section \<open>Properties\<close>



subsection \<open>Resolution selection\<close>




subsection \<open>The bucket loops\<close>



subsection \<open>The resolution that \<open>auto\<close> applies\<close>
















lemma get_energy_aggregated_fields:
  assumes "get_energy_aggregated db mid t0 t1 ph agg = Some (Inr res)"
  shows "raw_total_kwh res =
           (let raw = get_energy_readings db mid t0 t1 (Some ph)
            in if 2 \<le> length raw then total_kwh (last raw) - total_kwh (hd raw) else 0)"
    and "raw_readings_count res = length (get_energy_readings db mid t0 t1 (Some ph))"
    and "agg \<noteq> ''auto'' \<Longrightarrow> e_aggregation_applied res = agg"
    and "agg = ''auto'' \<Longrightarrow>
           calculate_optimal_aggregation (int (length (get_energy_readings db mid t0 t1 (Some ph))))
             (total_seconds t1 t0) 10000 = Inr (e_aggregation_applied res)"
  using assms
  by (auto simp: get_energy_aggregated_def Let_def split: sum.splits option.splits if_splits)


subsection \<open>Registering a meter again\<close>

text \<open>
  Claim C10. When the store already holds a meter with the id, \<open>register_meter\<close> replaces
  its \<open>ip_address\<close> by the new one and its \<open>last_seen\<close> by the time of the call; the stored
  name, location, enabled flag, poll interval, energy poll interval (and creation time) stay
  as they were.
\<close>

theorem register_meter_existing:
  assumes "meters db (meter_id m) = Some row"
  shows "\<exists>row'. meters (register_meter db m utcnow) (meter_id m) = Some row' \<and>
           m_ip_address row' = ip_address m \<and> m_last_seen row' = Some utcnow \<and>
           m_name row' = m_name row \<and> m_location row' = m_location row \<and>
           m_enabled row' = m_enabled row \<and> m_poll_interval row' = m_poll_interval row \<and>
           m_energy_poll_interval row' = m_energy_poll_interval row \<and>
           m_created_at row' = m_created_at row"
  using assms by (simp add: register_meter_def)

theorem register_meter_existing_witness:
  "meters example_store (meter_id example_meter) = Some example_row \<and>
   (\<exists>row'. meters (register_meter example_store example_meter 200) ''meter_001'' = Some row' \<and>
      m_ip_address row' = ''192.168.1.77'' \<and> m_last_seen row' = Some 200 \<and>
      m_name row' = Some ''Main Panel'' \<and> m_location row' = Some ''Garage'' \<and>
      m_enabled row' = 0 \<and> m_poll_interval row' = 2 \<and> m_energy_poll_interval row' = 45 \<and>
      m_created_at row' = 50)"
proof -
  have h: "meters example_store (meter_id example_meter) = Some example_row"
    by (simp add: example_store_def example_meter_def)
  from register_meter_existing[OF h, of 200] h show ?thesis
    by (simp add: example_meter_def example_row_def)
qed

subsection \<open>Removing a meter from a poller\<close>

text \<open>
  Claim C9, as stated, fails: a meter that was added while disabled has an entry in
  \<open>meters\<close> and no task, and removing it deletes that entry, so the meter map does change
  although no task exists.
\<close>

theorem remove_meter_without_task_counterexample:
  "tasks (snd (add_meter started_poller disabled_meter 0)) ''meter_002'' = None \<and>
   p_meters (snd (add_meter started_poller disabled_meter 0)) ''meter_002'' = Some disabled_meter \<and>
   p_meters (snd (remove_meter (snd (add_meter started_poller disabled_meter 0)) ''meter_002''))
     ''meter_002'' = None"
  by (simp add: add_meter_def remove_meter_def started_poller_def disabled_meter_def Let_def)

text \<open>
  Claim C9, amended. Without a task for the id, \<open>remove_meter\<close> touches no task and leaves
  the task map as it is; it deletes the id's entry of the meter map, and is a no-op when
  there is no such entry either. With a task, it cancels that task, awaits it, and deletes
  the id from both maps. A second \<open>remove_meter\<close> for the same id changes nothing and
  touches no task.
\<close>

theorem remove_meter_idempotent:
  "(tasks s k = None \<longrightarrow>
      remove_meter s k = ([], s\<lparr>p_meters := (p_meters s)(k := None)\<rparr>)) \<and>
   (tasks s k = None \<and> p_meters s k = None \<longrightarrow> remove_meter s k = ([], s)) \<and>
   (tasks s k = Some t \<longrightarrow>
      remove_meter s k =
        ([Cancel t, Await t], s\<lparr>tasks := (tasks s)(k := None), p_meters := (p_meters s)(k := None)\<rparr>)) \<and>
   remove_meter (snd (remove_meter s k)) k = ([], snd (remove_meter s k))"
proof -
  have a: "tasks s k = None \<Longrightarrow> remove_meter s k = ([], s\<lparr>p_meters := (p_meters s)(k := None)\<rparr>)"
    by (cases "p_meters s k") (auto simp: remove_meter_def fun_upd_idem)
  have b: "tasks s k = None \<Longrightarrow> p_meters s k = None \<Longrightarrow> remove_meter s k = ([], s)"
    by (simp add: remove_meter_def)
  have c: "tasks s k = Some t \<Longrightarrow> remove_meter s k =
        ([Cancel t, Await t], s\<lparr>tasks := (tasks s)(k := None), p_meters := (p_meters s)(k := None)\<rparr>)"
    by (cases "p_meters s k") (auto simp: remove_meter_def fun_upd_idem)
  have d: "remove_meter (snd (remove_meter s k)) k = ([], snd (remove_meter s k))"
    by (cases "tasks s k"; cases "p_meters s k") (auto simp: remove_meter_def)
  from a b c d show ?thesis by blast
qed

theorem remove_meter_idempotent_witness:
  "tasks polling_poller ''meter_001'' = Some 7 \<and>
   remove_meter polling_poller ''meter_001'' =
     ([Cancel 7, Await 7],
      polling_poller\<lparr>tasks := (tasks polling_poller)(''meter_001'' := None),
                      p_meters := (p_meters polling_poller)(''meter_001'' := None)\<rparr>) \<and>
   remove_meter (snd (remove_meter polling_poller ''meter_001'')) ''meter_001'' =
     ([], snd (remove_meter polling_poller ''meter_001'')) \<and>
   tasks polling_poller ''meter_002'' = None \<and>
   remove_meter polling_poller ''meter_002'' =
     ([], polling_poller\<lparr>p_meters := (p_meters polling_poller)(''meter_002'' := None)\<rparr>) \<and>
   tasks polling_poller ''meter_003'' = None \<and> p_meters polling_poller ''meter_003'' = None \<and>
   remove_meter polling_poller ''meter_003'' = ([], polling_poller)"
proof -
  have h1: "tasks polling_poller ''meter_001'' = Some 7"
    and h2: "tasks polling_poller ''meter_002'' = None"
    and h3: "tasks polling_poller ''meter_003'' = None \<and> p_meters polling_poller ''meter_003'' = None"
    by (simp_all add: polling_poller_def)
  from remove_meter_idempotent[of polling_poller "''meter_001''" 7]
    remove_meter_idempotent[of polling_poller "''meter_002''" 0]
    remove_meter_idempotent[of polling_poller "''meter_003''" 0]
    h1 h2 h3 show ?thesis
    by blast
qed

subsection \<open>Backoff of the poll loops\<close>

lemma poll_loop_append:
  "poll_loop step cf (xs @ ys) =
     (let (s1, cf1) = poll_loop step cf xs; (s2, cf2) = poll_loop step cf1 ys in (s1 @ s2, cf2))"
  by (induction xs arbitrary: cf) (auto simp: Let_def split: prod.splits)

lemma poll_meter_step_cases:
  "poll_meter_step m cf outcome =
     (if outcome = Stored then (if max_failures = 0 then (30, 0) else (poll_interval m, 0))
      else if cf + 1 \<ge> max_failures then (30, 0) else (poll_interval m, cf + 1))"
  by (cases outcome) (simp_all add: poll_meter_step_def Let_def)

lemma poll_energy_step_cases:
  "poll_energy_step m cf outcome =
     (if outcome = Stored then (if max_failures = 0 then (60, 0) else (energy_poll_interval m, 0))
      else if cf + 1 \<ge> max_failures then (60, 0) else (energy_poll_interval m, cf + 1))"
  by (cases outcome) (simp_all add: poll_energy_step_def Let_def)

lemma failures_loop:
  assumes step: "\<And>cf outcome. outcome \<noteq> Stored \<Longrightarrow>
                   step cf outcome = (if cf + 1 \<ge> 5 then (backoff, 0) else (interval, cf + 1))"
    and fs: "\<forall>outcome \<in> set fs. outcome \<noteq> Stored" and cf: "cf + length fs = 5" 
  shows "poll_loop step cf fs = (replicate (length fs - 1) interval @ (if fs = [] then [] else [backoff]),
                                  if fs = [] then cf else 0)"
  using fs cf
proof (induction fs arbitrary: cf)
  case Nil
  then show ?case by simp
next
  case (Cons f fs)
  show ?case
  proof (cases fs)
    case Nil
    with Cons.prems have "cf = 4" by simp
    with Nil Cons.prems step[of f cf] show ?thesis by simp
  next
    case (Cons g gs)
    with Cons.prems have lt: "cf + 1 < 5" by simp
    have "poll_loop step (cf + 1) fs =
            (replicate (length fs - 1) interval @ (if fs = [] then [] else [backoff]),
             if fs = [] then cf + 1 else 0)"
      using Cons.IH[of "cf + 1"] Cons.prems by simp
    with lt step[of f cf] Cons.prems Cons show ?thesis by simp
  qed
qed

text \<open>
  Claim C7. With fewer than five failures counted, a pass that stores a reading sleeps the
  normal interval and resets the counter; a failing pass sleeps the normal interval and
  counts one more, except the fifth in a row, which sleeps the fixed backoff (30 seconds
  for \<open>_poll_meter\<close>, 60 for \<open>_poll_energy\<close>) instead and resets the counter. So, after any
  history and a success, five failures in a row give four normal sleeps and then the
  backoff, and the pass after the backoff sleeps the normal interval again, starting from
  a counter of zero.
\<close>

theorem poll_backoff:
  "(consecutive_failures < 5 \<longrightarrow>
      poll_meter_step m consecutive_failures Stored = (poll_interval m, 0) \<and>
      poll_energy_step m consecutive_failures Stored = (energy_poll_interval m, 0) \<and>
      (outcome \<noteq> Stored \<longrightarrow>
         poll_meter_step m consecutive_failures outcome =
           (if consecutive_failures = 4 then (30, 0)
            else (poll_interval m, consecutive_failures + 1)) \<and>
         poll_energy_step m consecutive_failures outcome =
           (if consecutive_failures = 4 then (60, 0)
            else (energy_poll_interval m, consecutive_failures + 1)))) \<and>
   (length failures = 5 \<and> (\<forall>f \<in> set failures. f \<noteq> Stored) \<longrightarrow>
      poll_meter m (before @ [Stored] @ failures @ [outcome]) =
        (fst (poll_meter m before) @ [poll_interval m] @
           [poll_interval m, poll_interval m, poll_interval m, poll_interval m, 30] @
           [poll_interval m],
         if outcome = Stored then 0 else 1) \<and>
      poll_energy m (before @ [Stored] @ failures @ [outcome]) =
        (fst (poll_energy m before) @ [energy_poll_interval m] @
           [energy_poll_interval m, energy_poll_interval m, energy_poll_interval m,
            energy_poll_interval m, 60] @
           [energy_poll_interval m],
         if outcome = Stored then 0 else 1))"
proof -
  have single: "consecutive_failures < 5 \<Longrightarrow>
      poll_meter_step m consecutive_failures Stored = (poll_interval m, 0) \<and>
      poll_energy_step m consecutive_failures Stored = (energy_poll_interval m, 0) \<and>
      (outcome \<noteq> Stored \<longrightarrow>
         poll_meter_step m consecutive_failures outcome =
           (if consecutive_failures = 4 then (30, 0)
            else (poll_interval m, consecutive_failures + 1)) \<and>
         poll_energy_step m consecutive_failures outcome =
           (if consecutive_failures = 4 then (60, 0)
            else (energy_poll_interval m, consecutive_failures + 1)))"
    by (auto simp: poll_meter_step_cases poll_energy_step_cases max_failures_def)
  have run: "poll_loop step 0 (before @ [Stored] @ failures @ [outcome]) =
        (fst (poll_loop step 0 before) @ [interval] @
           [interval, interval, interval, interval, backoff] @ [interval],
         if outcome = Stored then 0 else 1)"
    if len: "length failures = 5" and fs: "\<forall>f \<in> set failures. f \<noteq> Stored"
      and st: "\<And>cf. step cf Stored = (interval, 0)"
      and fl: "\<And>cf outcome. outcome \<noteq> Stored \<Longrightarrow>
                   step cf outcome = (if cf + 1 \<ge> 5 then (backoff, 0) else (interval, cf + 1))"
    for step interval backoff
  proof -
    from len have ne: "failures \<noteq> []" by auto
    have "replicate (length failures - 1) interval = [interval, interval, interval, interval]"
      using len by (simp add: numeral_eq_Suc)
    then have f: "poll_loop step 0 failures = ([interval, interval, interval, interval, backoff], 0)"
      using failures_loop[of step backoff interval failures 0, OF fl fs] len ne by simp
    have l: "poll_loop step 0 [outcome] = ([interval], if outcome = Stored then 0 else 1)"
    proof (cases "outcome = Stored")
      case True
      then show ?thesis by (simp add: st)
    next
      case False
      from fl[OF False, of 0] have s0: "step 0 outcome = (interval, 1)" by simp
      show ?thesis using False s0 by (auto split: prod.splits)
    qed
    obtain s0 c0 where b: "poll_loop step 0 before = (s0, c0)" by (cases "poll_loop step 0 before")
    have s: "poll_loop step c0 [Stored] = ([interval], 0)" by (simp add: st)
    show ?thesis
      by (simp add: poll_loop_append b s f l del: append_Cons poll_loop.simps)
  qed
  have m: "length failures = 5 \<and> (\<forall>f \<in> set failures. f \<noteq> Stored) \<Longrightarrow>
      poll_meter m (before @ [Stored] @ failures @ [outcome]) =
        (fst (poll_meter m before) @ [poll_interval m] @
           [poll_interval m, poll_interval m, poll_interval m, poll_interval m, 30] @
           [poll_interval m],
         if outcome = Stored then 0 else 1)"
    unfolding poll_meter_def
    by (rule run) (auto simp: poll_meter_step_cases max_failures_def)
  have e: "length failures = 5 \<and> (\<forall>f \<in> set failures. f \<noteq> Stored) \<Longrightarrow>
      poll_energy m (before @ [Stored] @ failures @ [outcome]) =
        (fst (poll_energy m before) @ [energy_poll_interval m] @
           [energy_poll_interval m, energy_poll_interval m, energy_poll_interval m,
            energy_poll_interval m, 60] @
           [energy_poll_interval m],
         if outcome = Stored then 0 else 1)"
    unfolding poll_energy_def
    by (rule run) (auto simp: poll_energy_step_cases max_failures_def)
  from single m e show ?thesis by blast
qed

theorem poll_backoff_witness:
  "(4::nat) < 5 \<and> Raised \<noteq> Stored \<and>
   poll_meter_step example_meter 4 Raised = (30, 0) \<and>
   poll_energy_step example_meter 4 Raised = (60, 0) \<and>
   poll_meter_step example_meter 4 Stored = (1, 0) \<and>
   length [Raised, Nothing, Nothing, Raised, Nothing] = 5 \<and>
   Stored \<notin> set [Raised, Nothing, Nothing, Raised, Nothing] \<and>
   poll_meter example_meter ([Nothing] @ [Stored] @ [Raised, Nothing, Nothing, Raised, Nothing] @ [Raised]) =
     ([1, 1, 1, 1, 1, 1, 30, 1], 1) \<and>
   poll_energy example_meter ([Nothing] @ [Stored] @ [Raised, Nothing, Nothing, Raised, Nothing] @ [Raised]) =
     ([30, 30, 30, 30, 30, 30, 60, 30], 1)"
proof -
  have b: "fst (poll_meter example_meter [Nothing]) = [1]"
    "fst (poll_energy example_meter [Nothing]) = [30]"
    by (simp_all add: poll_meter_def poll_energy_def poll_meter_step_def poll_energy_step_def
        max_failures_def example_meter_def)
  have i: "poll_interval example_meter = 1" "energy_poll_interval example_meter = 30"
    by (simp_all add: example_meter_def)
  have h: "(4::nat) < 5" "Raised \<noteq> Stored"
    "length [Raised, Nothing, Nothing, Raised, Nothing] = 5 \<and>
     (\<forall>f \<in> set [Raised, Nothing, Nothing, Raised, Nothing]. f \<noteq> Stored)"
    by simp_all
  from poll_backoff[of 4 example_meter Raised "[Raised, Nothing, Nothing, Raised, Nothing]" "[Nothing]"]
    h
  have "poll_meter_step example_meter 4 Stored = (poll_interval example_meter, 0)"
    "poll_meter_step example_meter 4 Raised = (30, 0)"
    "poll_energy_step example_meter 4 Raised = (60, 0)"
    "poll_meter example_meter ([Nothing] @ [Stored] @ [Raised, Nothing, Nothing, Raised, Nothing] @ [Raised]) =
        (fst (poll_meter example_meter [Nothing]) @ [poll_interval example_meter] @
           [poll_interval example_meter, poll_interval example_meter, poll_interval example_meter,
            poll_interval example_meter, 30] @
           [poll_interval example_meter], 1)"
    "poll_energy example_meter ([Nothing] @ [Stored] @ [Raised, Nothing, Nothing, Raised, Nothing] @ [Raised]) =
        (fst (poll_energy example_meter [Nothing]) @ [energy_poll_interval example_meter] @
           [energy_poll_interval example_meter, energy_poll_interval example_meter,
            energy_poll_interval example_meter, energy_poll_interval example_meter, 60] @
           [energy_poll_interval example_meter], 1)"
    by simp_all
  with h show ?thesis unfolding b i by simp
qed

lemma reset_store_1hour:
  "get_energy_aggregated reset_store ''meter_001'' 0 10000000000 ''A'' ''1hour'' =
     Some (Inr \<lparr>aggregated = [\<lparr>d_timestamp = 0, energy_kwh = 0\<rparr>,
                               \<lparr>d_timestamp = 3600000000, energy_kwh = 2\<rparr>,
                               \<lparr>d_timestamp = 7200000000, energy_kwh = 1\<rparr>],
                 raw_total_kwh = - 3, raw_readings_count = 5, e_aggregation_applied = ''1hour''\<rparr>)"
  by code_simp

lemma reset_store_readings:
  "get_energy_readings reset_store ''meter_001'' 0 10000000000 (Some ''A'') = reset_readings"
  by code_simp

text \<open>
  Claim C8. When the range holds at least two raw readings (taken in time order), the
  reported raw total is the last one's counter minus the first one's, whatever its sign;
  there are queries whose raw total is negative.
\<close>

theorem raw_total_unfiltered:
  "(get_energy_aggregated db mid t0 t1 ph agg = Some (Inr res) \<and>
    2 \<le> length (get_energy_readings db mid t0 t1 (Some ph)) \<longrightarrow>
      raw_total_kwh res =
        total_kwh (last (get_energy_readings db mid t0 t1 (Some ph))) -
        total_kwh (hd (get_energy_readings db mid t0 t1 (Some ph))) \<and>
      raw_readings_count res = length (get_energy_readings db mid t0 t1 (Some ph)) \<and>
      sorted (map e_timestamp (get_energy_readings db mid t0 t1 (Some ph)))) \<and>
   (\<exists>db' mid' t0' t1' ph' agg' res'.
      get_energy_aggregated db' mid' t0' t1' ph' agg' = Some (Inr res') \<and> raw_total_kwh res' < 0)"
proof
  show "get_energy_aggregated db mid t0 t1 ph agg = Some (Inr res) \<and>
    2 \<le> length (get_energy_readings db mid t0 t1 (Some ph)) \<longrightarrow>
      raw_total_kwh res =
        total_kwh (last (get_energy_readings db mid t0 t1 (Some ph))) -
        total_kwh (hd (get_energy_readings db mid t0 t1 (Some ph))) \<and>
      raw_readings_count res = length (get_energy_readings db mid t0 t1 (Some ph)) \<and>
      sorted (map e_timestamp (get_energy_readings db mid t0 t1 (Some ph)))"
  proof (intro impI, elim conjE)
    assume r: "get_energy_aggregated db mid t0 t1 ph agg = Some (Inr res)"
      and n: "2 \<le> length (get_energy_readings db mid t0 t1 (Some ph))"
    have "sorted (map e_timestamp (get_energy_readings db mid t0 t1 (Some ph)))"
      by (simp add: get_energy_readings_def)
    with get_energy_aggregated_fields(1,2)[OF r] n show
      "raw_total_kwh res =
        total_kwh (last (get_energy_readings db mid t0 t1 (Some ph))) -
        total_kwh (hd (get_energy_readings db mid t0 t1 (Some ph))) \<and>
      raw_readings_count res = length (get_energy_readings db mid t0 t1 (Some ph)) \<and>
      sorted (map e_timestamp (get_energy_readings db mid t0 t1 (Some ph)))"
      by (simp add: Let_def)
  qed
next
  from reset_store_1hour show "\<exists>db' mid' t0' t1' ph' agg' res'.
      get_energy_aggregated db' mid' t0' t1' ph' agg' = Some (Inr res') \<and> raw_total_kwh res' < 0"
    by (intro exI[of _ reset_store] exI[of _ "''meter_001''"] exI[of _ 0] exI[of _ 10000000000]
        exI[of _ "''A''"] exI[of _ "''1hour''"]) simp
qed

theorem raw_total_unfiltered_witness:
  "get_energy_aggregated reset_store ''meter_001'' 0 10000000000 ''A'' ''1hour'' =
     Some (Inr \<lparr>aggregated = [\<lparr>d_timestamp = 0, energy_kwh = 0\<rparr>,
                               \<lparr>d_timestamp = 3600000000, energy_kwh = 2\<rparr>,
                               \<lparr>d_timestamp = 7200000000, energy_kwh = 1\<rparr>],
                 raw_total_kwh = - 3, raw_readings_count = 5, e_aggregation_applied = ''1hour''\<rparr>) \<and>
   2 \<le> length (get_energy_readings reset_store ''meter_001'' 0 10000000000 (Some ''A'')) \<and>
   total_kwh (last (get_energy_readings reset_store ''meter_001'' 0 10000000000 (Some ''A''))) -
   total_kwh (hd (get_energy_readings reset_store ''meter_001'' 0 10000000000 (Some ''A''))) = - 3"
proof -
  have n: "2 \<le> length (get_energy_readings reset_store ''meter_001'' 0 10000000000 (Some ''A''))"
    by (simp add: reset_store_readings reset_readings_def)
  from raw_total_unfiltered[of reset_store "''meter_001''" 0 10000000000 "''A''" "''1hour''"
      "\<lparr>aggregated = [\<lparr>d_timestamp = 0, energy_kwh = 0\<rparr>,
                               \<lparr>d_timestamp = 3600000000, energy_kwh = 2\<rparr>,
                               \<lparr>d_timestamp = 7200000000, energy_kwh = 1\<rparr>],
                 raw_total_kwh = - 3, raw_readings_count = 5, e_aggregation_applied = ''1hour''\<rparr>"]
    reset_store_1hour n
  show ?thesis by simp
qed

lemma bisect_left_loop_spec:
  assumes "sorted a" "lo \<le> hi" "hi \<le> length a" "\<forall>i<lo. a ! i < x"
    "\<forall>i. hi \<le> i \<and> i < length a \<longrightarrow> x \<le> a ! i"
  shows "lo \<le> bisect_left_loop a x lo hi \<and> bisect_left_loop a x lo hi \<le> hi \<and>
         (\<forall>i < bisect_left_loop a x lo hi. a ! i < x) \<and>
         (\<forall>i. bisect_left_loop a x lo hi \<le> i \<and> i < length a \<longrightarrow> x \<le> a ! i)"
  using assms
proof (induction a x lo hi rule: bisect_left_loop.induct)
  case (1 a x lo hi)
  show ?case
  proof (cases "lo < hi")
    case False
    then have "bisect_left_loop a x lo hi = lo" by (subst bisect_left_loop.simps) simp
    with "1.prems" False show ?thesis by auto
  next
    case True
    define mid where "mid = (lo + hi) div 2"
    have mid: "lo \<le> mid" "mid < hi" using True by (simp_all add: mid_def)
    show ?thesis
    proof (cases "a ! mid < x")
      case lt: True
      have "\<forall>i < mid + 1. a ! i < x"
      proof (intro allI impI)
        fix i assume "i < mid + 1"
        then have "i \<le> mid" by simp
        with \<open>sorted a\<close> mid "1.prems"(3) have "a ! i \<le> a ! mid"
          by (auto simp: sorted_iff_nth_mono)
        with lt show "a ! i < x" by simp
      qed
      with "1.IH"(1)[OF True mid_def lt] "1.prems" mid
      have "mid + 1 \<le> bisect_left_loop a x (mid + 1) hi \<and> bisect_left_loop a x (mid + 1) hi \<le> hi \<and>
         (\<forall>i < bisect_left_loop a x (mid + 1) hi. a ! i < x) \<and>
         (\<forall>i. bisect_left_loop a x (mid + 1) hi \<le> i \<and> i < length a \<longrightarrow> x \<le> a ! i)"
        by simp
      moreover have "bisect_left_loop a x lo hi = bisect_left_loop a x (mid + 1) hi"
        using True lt by (subst bisect_left_loop.simps) (simp add: mid_def Let_def)
      ultimately show ?thesis using mid by auto
    next
      case ge: False
      have "\<forall>i. mid \<le> i \<and> i < length a \<longrightarrow> x \<le> a ! i"
      proof (intro allI impI)
        fix i assume "mid \<le> i \<and> i < length a"
        with \<open>sorted a\<close> have "a ! mid \<le> a ! i" by (auto simp: sorted_iff_nth_mono)
        with ge show "x \<le> a ! i" by simp
      qed
      with "1.IH"(2)[OF True mid_def ge] "1.prems" mid
      have "lo \<le> bisect_left_loop a x lo mid \<and> bisect_left_loop a x lo mid \<le> mid \<and>
         (\<forall>i < bisect_left_loop a x lo mid. a ! i < x) \<and>
         (\<forall>i. bisect_left_loop a x lo mid \<le> i \<and> i < length a \<longrightarrow> x \<le> a ! i)"
        by simp
      moreover have "bisect_left_loop a x lo hi = bisect_left_loop a x lo mid"
        using True ge by (subst bisect_left_loop.simps) (simp add: mid_def Let_def)
      ultimately show ?thesis using mid by auto
    qed
  qed
qed

lemma bisect_left_spec:
  assumes "sorted a"
  shows "bisect_left a x \<le> length a \<and> (\<forall>i < bisect_left a x. a ! i < x) \<and>
         (\<forall>i. bisect_left a x \<le> i \<and> i < length a \<longrightarrow> x \<le> a ! i)"
  using bisect_left_loop_spec[OF assms, of 0 "length a" x] by (simp add: bisect_left_def)

lemma sorted_preprocess: "sorted (map time_ms (preprocess ers))"
  by (simp add: preprocess_def)

lemma length_preprocess: "length (preprocess ers) = length ers"
  by (simp add: preprocess_def)

lemma interpolate_before_first:
  assumes "sorted (map time_ms rs)" "rs \<noteq> []" "t < time_ms (hd rs)"
  shows "interpolate_kwh_at_time rs t = Some (total_kwh (hd rs))"
proof -
  let ?a = "map time_ms rs"
  have "bisect_left ?a t = 0"
  proof (rule ccontr)
    assume "bisect_left ?a t \<noteq> 0"
    with bisect_left_spec[OF assms(1), of t] have "?a ! 0 < t" by auto
    with assms(2,3) show False by (simp add: hd_conv_nth)
  qed
  with assms(2,3) show ?thesis
    by (auto simp: interpolate_kwh_at_time_def Let_def hd_conv_nth)
qed

lemma interpolate_after_last:
  assumes "sorted (map time_ms rs)" "rs \<noteq> []" "time_ms (last rs) < t"
  shows "interpolate_kwh_at_time rs t = Some (total_kwh (last rs))"
proof -
  let ?a = "map time_ms rs"
  have "bisect_left ?a t = length rs"
  proof (rule ccontr)
    assume "bisect_left ?a t \<noteq> length rs"
    with bisect_left_spec[OF assms(1), of t] have lt: "bisect_left ?a t < length rs" by auto
    with bisect_left_spec[OF assms(1), of t] have "t \<le> ?a ! (length rs - 1)"
      by (metis One_nat_def Suc_pred diff_less length_greater_0_conv length_map less_Suc_eq_le
          less_numeral_extra(1) assms(2))
    with assms(2,3) show False by (simp add: last_conv_nth)
  qed
  with assms(2) show ?thesis
    by (auto simp: interpolate_kwh_at_time_def Let_def)
qed

lemma interpolate_between:
  assumes "sorted (map time_ms rs)" "Suc i < length rs" "time_ms (rs ! i) < t" "t < time_ms (rs ! Suc i)"
  shows "interpolate_kwh_at_time rs t =
           Some (total_kwh (rs ! i) +
                 (total_kwh (rs ! Suc i) - total_kwh (rs ! i)) *
                 (of_int (t - time_ms (rs ! i)) / of_int (time_ms (rs ! Suc i) - time_ms (rs ! i))))"
proof -
  let ?a = "map time_ms rs"
  note sp = bisect_left_spec[OF assms(1), of t]
  have "\<not> bisect_left ?a t \<le> i"
  proof
    assume "bisect_left ?a t \<le> i"
    with sp assms(2) have "t \<le> ?a ! i" by auto
    with assms(2,3) show False by simp
  qed
  moreover have "\<not> Suc i < bisect_left ?a t"
  proof
    assume "Suc i < bisect_left ?a t"
    with sp have "?a ! Suc i < t" by auto
    with assms(2,4) show False by simp
  qed
  ultimately have idx: "bisect_left ?a t = Suc i" by simp
  with assms show ?thesis
    by (auto simp: interpolate_kwh_at_time_def Let_def)
qed

lemma interpolate_exact:
  assumes "sorted (map time_ms rs)" "i < length rs" "time_ms (rs ! i) = t"
  shows "\<exists>j \<le> i. time_ms (rs ! j) = t \<and> (\<forall>k < j. time_ms (rs ! k) < t) \<and>
                 interpolate_kwh_at_time rs t = Some (total_kwh (rs ! j))"
proof -
  let ?a = "map time_ms rs"
  let ?j = "bisect_left ?a t"
  note sp = bisect_left_spec[OF assms(1), of t]
  have le: "?j \<le> i"
  proof (rule ccontr)
    assume "\<not> ?j \<le> i"
    with sp have "?a ! i < t" by auto
    with assms(2,3) show False by simp
  qed
  with sp assms(2) have "t \<le> ?a ! ?j" by auto
  moreover have "?a ! ?j \<le> ?a ! i"
    using assms(1,2) le by (auto simp: sorted_iff_nth_mono)
  ultimately have eq: "time_ms (rs ! ?j) = t" using assms(2,3) le by simp
  have "\<forall>k < ?j. time_ms (rs ! k) < t" using sp le assms(2) by auto
  moreover have "interpolate_kwh_at_time rs t = Some (total_kwh (rs ! ?j))"
    using eq le assms(2) by (auto simp: interpolate_kwh_at_time_def Let_def)
  ultimately show ?thesis using le eq by blast
qed

lemma first_last_general:
  "first_last b rs f l =
     (if inside b rs = [] then (f, l)
      else (if f = None then Some (hd (inside b rs)) else f, Some (last (inside b rs))))"
  by (induction rs arbitrary: f l) (auto simp: inside_def)

lemma first_last_inside:
  "first_last b rs None None =
     (if inside b rs = [] then (None, None)
      else (Some (hd (inside b rs)), Some (last (inside b rs))))"
  by (simp add: first_last_general)

lemma interpolation_deltas_eq:
  "interpolation_deltas rs bs = Inr ds \<Longrightarrow>
   ds = List.map_filter (kept_entry (interpolated_delta rs)) bs \<and>
   (\<forall>b \<in> set bs. \<forall>x. interpolated_delta rs b = Some x \<and> 0 \<le> x \<longrightarrow> bucket_start b \<noteq> None)"
proof (induction bs arbitrary: ds)
  case Nil
  then show ?case by simp
next
  case (Cons b bs)
  show ?case
  proof (cases "interpolated_delta rs b")
    case None
    with Cons.prems have "interpolation_deltas rs bs = Inr ds"
      by (auto simp: interpolated_delta_def split: option.splits)
    from Cons.IH[OF this] None show ?thesis
      by (simp add: kept_entry_def)
  next
    case (Some x)
    then obtain s e where se: "interpolate_kwh_at_time rs (start_ms b) = Some s"
      "interpolate_kwh_at_time rs (end_ms b) = Some e" "x = e - s"
      by (auto simp: interpolated_delta_def split: option.splits)
    show ?thesis
    proof (cases "0 \<le> x")
      case False
      with Cons.prems se have "interpolation_deltas rs bs = Inr ds" by (simp add: Let_def)
      from Cons.IH[OF this] Some False show ?thesis
        by (simp add: kept_entry_def split: option.splits)
    next
      case True
      with Cons.prems se obtain c ds' where c: "bucket_start b = Some c"
        "interpolation_deltas rs bs = Inr ds'" "ds = \<lparr>d_timestamp = c, energy_kwh = x\<rparr> # ds'"
        by (auto simp: Let_def split: option.splits sum.splits)
      from Cons.IH[OF c(2)] Some True c show ?thesis
        by (simp add: kept_entry_def)
    qed
  qed
qed

lemma first_last_deltas_eq:
  "first_last_deltas rs bs = Inr ds \<Longrightarrow>
   ds = List.map_filter (kept_entry (first_last_delta rs)) bs \<and>
   (\<forall>b \<in> set bs. \<forall>x. first_last_delta rs b = Some x \<and> 0 \<le> x \<longrightarrow> bucket_start b \<noteq> None)"
proof (induction bs arbitrary: ds)
  case Nil
  then show ?case by simp
next
  case (Cons b bs)
  show ?case
  proof (cases "inside b rs = []")
    case True
    with Cons.prems have "first_last_deltas rs bs = Inr ds"
      by (simp add: first_last_inside)
    from Cons.IH[OF this] True show ?thesis
      by (simp add: kept_entry_def first_last_delta_def)
  next
    case False
    define x where "x = total_kwh (last (inside b rs)) - total_kwh (hd (inside b rs))"
    have fl: "first_last_delta rs b = Some x" using False by (simp add: first_last_delta_def x_def)
    show ?thesis
    proof (cases "0 \<le> x")
      case neg: False
      with Cons.prems False have "first_last_deltas rs bs = Inr ds"
        by (simp add: first_last_inside Let_def x_def)
      from Cons.IH[OF this] fl neg show ?thesis
        by (simp add: kept_entry_def split: option.splits)
    next
      case True
      with Cons.prems False obtain c ds' where c: "bucket_start b = Some c"
        "first_last_deltas rs bs = Inr ds'" "ds = \<lparr>d_timestamp = c, energy_kwh = x\<rparr> # ds'"
        by (auto simp: first_last_inside Let_def x_def split: option.splits sum.splits)
      from Cons.IH[OF c(2)] fl True c show ?thesis
        by (simp add: kept_entry_def)
    qed
  qed
qed

lemma kept_entries_nonneg:
  "d \<in> set (List.map_filter (kept_entry f) bs) \<Longrightarrow> 0 \<le> energy_kwh d"
  by (auto simp: List.map_filter_def kept_entry_def split: option.splits if_splits)

lemma interpolate_Some:
  "rs \<noteq> [] \<Longrightarrow> \<exists>v. interpolate_kwh_at_time rs t = Some v"
  by (simp add: interpolate_kwh_at_time_def Let_def)

lemma map_filter_kept_entry_mem:
  assumes "d \<in> set (List.map_filter (kept_entry f) bs)"
  shows "\<exists>b \<in> set bs. bucket_start b = Some (d_timestamp d) \<and> f b = Some (energy_kwh d) \<and>
                      0 \<le> energy_kwh d"
  using assms
  by (auto simp: List.map_filter_def kept_entry_def split: option.splits if_splits)

lemma with_interpolation_eq:
  assumes "calculate_energy_deltas_with_interpolation ers agg t0 t1 = Some (Inr ds)"
    and "2 \<le> length ers"
  shows "\<exists>bs. interpolation_buckets agg t0 t1 = Some (Inr bs) \<and>
              ds = List.map_filter (kept_entry (interpolated_delta (preprocess ers))) bs"
  using assms interpolation_deltas_eq
  by (auto simp: calculate_energy_deltas_with_interpolation_def split: option.splits sum.splits)

lemma without_interpolation_eq:
  assumes "calculate_energy_deltas_without_interpolation ers agg t0 t1 = Some (Inr ds)"
    and "2 \<le> length ers"
  shows "\<exists>bs. coarse_buckets True agg (replace_second_microsecond_0 t0) t1 = Some (Inr bs) \<and>
              ds = List.map_filter (kept_entry (first_last_delta (preprocess ers))) bs"
  using assms first_last_deltas_eq
  by (auto simp: calculate_energy_deltas_without_interpolation_def split: option.splits sum.splits)

text \<open>
  Claim C5. On a non-empty list of readings sorted by time, the value interpolated at a
  time before the first reading is the first reading's, at a time after the last reading
  the last reading's, at the time of a reading that reading's (the first of them), and
  strictly between two neighbours the linear interpolation between the two. The readings
  that the calculator searches are sorted, and every entry it returns for a minute
  resolution belongs to one of its buckets and carries interpolated(end) minus
  interpolated(start) of that bucket.
\<close>

theorem interpolation_correct:
  "(sorted (map time_ms rs) \<and> rs \<noteq> [] \<longrightarrow>
      (t < time_ms (hd rs) \<longrightarrow> interpolate_kwh_at_time rs t = Some (total_kwh (hd rs))) \<and>
      (time_ms (last rs) < t \<longrightarrow> interpolate_kwh_at_time rs t = Some (total_kwh (last rs))) \<and>
      (Suc i < length rs \<and> time_ms (rs ! i) < t \<and> t < time_ms (rs ! Suc i) \<longrightarrow>
         interpolate_kwh_at_time rs t =
           Some (total_kwh (rs ! i) +
                 (total_kwh (rs ! Suc i) - total_kwh (rs ! i)) *
                 (of_int (t - time_ms (rs ! i)) / of_int (time_ms (rs ! Suc i) - time_ms (rs ! i))))) \<and>
      (i < length rs \<and> time_ms (rs ! i) = t \<longrightarrow>
         (\<exists>j \<le> i. time_ms (rs ! j) = t \<and> (\<forall>k < j. time_ms (rs ! k) < t) \<and>
                 interpolate_kwh_at_time rs t = Some (total_kwh (rs ! j))))) \<and>
   sorted (map time_ms (preprocess ers)) \<and>
   (calculate_energy_deltas_with_interpolation ers agg t0 t1 = Some (Inr ds) \<and> 2 \<le> length ers \<longrightarrow>
      (\<exists>bs. interpolation_buckets agg t0 t1 = Some (Inr bs) \<and>
         (\<forall>d \<in> set ds. \<exists>b \<in> set bs. \<exists>start_kwh end_kwh.
            bucket_start b = Some (d_timestamp d) \<and>
            interpolate_kwh_at_time (preprocess ers) (start_ms b) = Some start_kwh \<and>
            interpolate_kwh_at_time (preprocess ers) (end_ms b) = Some end_kwh \<and>
            energy_kwh d = end_kwh - start_kwh)))"
proof (intro conjI impI)
  assume "calculate_energy_deltas_with_interpolation ers agg t0 t1 = Some (Inr ds) \<and> 2 \<le> length ers"
  with with_interpolation_eq obtain bs where bs: "interpolation_buckets agg t0 t1 = Some (Inr bs)"
    "ds = List.map_filter (kept_entry (interpolated_delta (preprocess ers))) bs" by blast
  have "\<exists>b \<in> set bs. \<exists>start_kwh end_kwh.
            bucket_start b = Some (d_timestamp d) \<and>
            interpolate_kwh_at_time (preprocess ers) (start_ms b) = Some start_kwh \<and>
            interpolate_kwh_at_time (preprocess ers) (end_ms b) = Some end_kwh \<and>
            energy_kwh d = end_kwh - start_kwh" if "d \<in> set ds" for d
  proof -
    from map_filter_kept_entry_mem[OF that[unfolded bs(2)]] obtain b where
      b: "b \<in> set bs" "bucket_start b = Some (d_timestamp d)"
      "interpolated_delta (preprocess ers) b = Some (energy_kwh d)" by blast
    from b(3) show ?thesis using b(1,2)
      by (auto simp: interpolated_delta_def split: option.splits)
  qed
  with bs(1) show "\<exists>bs. interpolation_buckets agg t0 t1 = Some (Inr bs) \<and>
         (\<forall>d \<in> set ds. \<exists>b \<in> set bs. \<exists>start_kwh end_kwh.
            bucket_start b = Some (d_timestamp d) \<and>
            interpolate_kwh_at_time (preprocess ers) (start_ms b) = Some start_kwh \<and>
            interpolate_kwh_at_time (preprocess ers) (end_ms b) = Some end_kwh \<and>
            energy_kwh d = end_kwh - start_kwh)" by blast
qed (use interpolate_before_first interpolate_after_last interpolate_between interpolate_exact
      sorted_preprocess in \<open>blast+\<close>)

lemma preprocess_minute_readings:
  "preprocess minute_readings =
     [\<lparr>e_timestamp = 0, e_meter_id = ''meter_001'', phase = ''A'', total_kwh = 0, time_ms = 0\<rparr>,
      \<lparr>e_timestamp = 60000000, e_meter_id = ''meter_001'', phase = ''A'', total_kwh = 1,
         time_ms = 60000\<rparr>,
      \<lparr>e_timestamp = 120000000, e_meter_id = ''meter_001'', phase = ''A'', total_kwh = 2,
         time_ms = 120000\<rparr>,
      \<lparr>e_timestamp = 180000000, e_meter_id = ''meter_001'', phase = ''A'', total_kwh = 3,
         time_ms = 180000\<rparr>]"
  by code_simp

lemma minute_readings_1min:
  "calculate_energy_deltas_with_interpolation minute_readings ''1min'' 30000000 180000000 =
     Some (Inr [\<lparr>d_timestamp = 0, energy_kwh = 1\<rparr>, \<lparr>d_timestamp = 60000000, energy_kwh = 1\<rparr>,
                \<lparr>d_timestamp = 120000000, energy_kwh = 1\<rparr>,
                \<lparr>d_timestamp = 180000000, energy_kwh = 0\<rparr>])"
  by code_simp

theorem interpolation_correct_witness:
  "sorted (map time_ms (preprocess minute_readings)) \<and> preprocess minute_readings \<noteq> [] \<and>
   interpolate_kwh_at_time (preprocess minute_readings) (- 5000) = Some 0 \<and>
   interpolate_kwh_at_time (preprocess minute_readings) 200000 = Some 3 \<and>
   interpolate_kwh_at_time (preprocess minute_readings) 90000 = Some (3 / 2) \<and>
   interpolate_kwh_at_time (preprocess minute_readings) 0 = Some 0 \<and>
   calculate_energy_deltas_with_interpolation minute_readings ''1min'' 30000000 180000000 =
     Some (Inr [\<lparr>d_timestamp = 0, energy_kwh = 1\<rparr>, \<lparr>d_timestamp = 60000000, energy_kwh = 1\<rparr>,
                \<lparr>d_timestamp = 120000000, energy_kwh = 1\<rparr>,
                \<lparr>d_timestamp = 180000000, energy_kwh = 0\<rparr>])"
proof -
  let ?rs = "preprocess minute_readings"
  have s: "sorted (map time_ms ?rs) \<and> ?rs \<noteq> []"
    by (simp add: preprocess_minute_readings)
  have a: "interpolate_kwh_at_time ?rs (- 5000) = Some 0"
    using interpolation_correct[of ?rs "- 5000" 0 minute_readings "''1min''" 30000000 180000000 "[]"] s
    by (simp add: preprocess_minute_readings)
  have b: "interpolate_kwh_at_time ?rs 200000 = Some 3"
    using interpolation_correct[of ?rs 200000 0 minute_readings "''1min''" 30000000 180000000 "[]"] s
    by (simp add: preprocess_minute_readings)
  have c: "interpolate_kwh_at_time ?rs 90000 = Some (3 / 2)"
    using interpolation_correct[of ?rs 90000 1 minute_readings "''1min''" 30000000 180000000 "[]"] s
    by (simp add: preprocess_minute_readings)
  have d: "interpolate_kwh_at_time ?rs 0 = Some 0"
    using interpolation_correct[of ?rs 0 0 minute_readings "''1min''" 30000000 180000000 "[]"] s
    by (simp add: preprocess_minute_readings)
  from s a b c d minute_readings_1min show ?thesis by simp
qed

lemma get_energy_aggregated_deltas:
  assumes "get_energy_aggregated db mid t0 t1 ph agg = Some (Inr res)"
  shows "(if e_aggregation_applied res \<noteq> ''none'' \<and>
            2 \<le> length (get_energy_readings db mid t0 t1 (Some ph))
         then (if endswith (e_aggregation_applied res) ''min''
               then calculate_energy_deltas_with_interpolation
                      (get_energy_readings db mid t0 t1 (Some ph)) (e_aggregation_applied res) t0 t1
               else calculate_energy_deltas_without_interpolation
                      (get_energy_readings db mid t0 t1 (Some ph)) (e_aggregation_applied res) t0 t1)
         else Some (Inr [])) = Some (Inr (aggregated res))"
  using assms
  by (auto simp: get_energy_aggregated_def Let_def split: sum.splits option.splits if_splits)

lemma get_energy_aggregated_kept:
  assumes "get_energy_aggregated db mid t0 t1 ph agg = Some (Inr res)"
    and "e_aggregation_applied res \<noteq> ''none''"
    and "2 \<le> length (get_energy_readings db mid t0 t1 (Some ph))"
  shows "\<exists>bs. energy_buckets (e_aggregation_applied res) t0 t1 = Some (Inr bs) \<and>
           aggregated res =
             List.map_filter
               (kept_entry (computed_delta (e_aggregation_applied res)
                  (preprocess (get_energy_readings db mid t0 t1 (Some ph))))) bs \<and>
           (\<forall>b \<in> set bs. \<forall>x.
              computed_delta (e_aggregation_applied res)
                (preprocess (get_energy_readings db mid t0 t1 (Some ph))) b = Some x \<and> 0 \<le> x \<longrightarrow>
              bucket_start b \<noteq> None)"
proof (cases "endswith (e_aggregation_applied res) ''min''")
  case True
  with get_energy_aggregated_deltas[OF assms(1)] assms(2,3)
  have w: "calculate_energy_deltas_with_interpolation (get_energy_readings db mid t0 t1 (Some ph))
          (e_aggregation_applied res) t0 t1 = Some (Inr (aggregated res))" by simp
  then obtain bs where bs: "interpolation_buckets (e_aggregation_applied res) t0 t1 = Some (Inr bs)"
    "interpolation_deltas (preprocess (get_energy_readings db mid t0 t1 (Some ph))) bs =
       Inr (aggregated res)"
    using assms(3)
    by (auto simp: calculate_energy_deltas_with_interpolation_def split: option.splits sum.splits)
  from interpolation_deltas_eq[OF bs(2)] bs(1) True show ?thesis
    by (auto simp: energy_buckets_def computed_delta_def)
next
  case False
  with get_energy_aggregated_deltas[OF assms(1)] assms(2,3)
  have w: "calculate_energy_deltas_without_interpolation (get_energy_readings db mid t0 t1 (Some ph))
          (e_aggregation_applied res) t0 t1 = Some (Inr (aggregated res))" by simp
  then obtain bs where bs: "coarse_buckets True (e_aggregation_applied res)
         (replace_second_microsecond_0 t0) t1 = Some (Inr bs)"
    "first_last_deltas (preprocess (get_energy_readings db mid t0 t1 (Some ph))) bs =
       Inr (aggregated res)"
    using assms(3)
    by (auto simp: calculate_energy_deltas_without_interpolation_def split: option.splits sum.splits)
  from first_last_deltas_eq[OF bs(2)] bs(1) False show ?thesis
    by (auto simp: energy_buckets_def computed_delta_def)
qed

lemma get_energy_aggregated_empty:
  assumes "get_energy_aggregated db mid t0 t1 ph agg = Some (Inr res)"
    and "\<not> (e_aggregation_applied res \<noteq> ''none'' \<and>
             2 \<le> length (get_energy_readings db mid t0 t1 (Some ph)))"
  shows "aggregated res = []"
  using get_energy_aggregated_deltas[OF assms(1)] assms(2) by (auto split: if_splits)

lemma length_map_filter_kept:
  assumes "\<forall>b \<in> set bs. \<forall>x. f b = Some x \<and> 0 \<le> x \<longrightarrow> bucket_start b \<noteq> None"
  shows "length (List.map_filter (kept_entry f) bs) =
         length (filter (\<lambda>b. \<exists>x. f b = Some x \<and> 0 \<le> x) bs)"
proof -
  have "filter (\<lambda>b. kept_entry f b \<noteq> None) bs = filter (\<lambda>b. \<exists>x. f b = Some x \<and> 0 \<le> x) bs"
    using assms
    by (intro filter_cong) (auto simp: kept_entry_def split: option.splits if_splits)
  then show ?thesis by (simp add: List.map_filter_def)
qed

text \<open>
  Claim C2. Every delta in the list an energy query returns is at least 0. At a resolution
  other than \<open>none\<close> (with at least two raw readings) the list holds, in bucket order,
  exactly one entry for each bucket whose computed delta exists and is at least 0: a
  bucket with a negative delta has no entry.
\<close>

theorem energy_deltas_nonneg:
  "get_energy_aggregated db mid t0 t1 ph agg = Some (Inr res) \<longrightarrow>
     (\<forall>d \<in> set (aggregated res). 0 \<le> energy_kwh d) \<and>
     (e_aggregation_applied res \<noteq> ''none'' \<and>
      2 \<le> length (get_energy_readings db mid t0 t1 (Some ph)) \<longrightarrow>
        (\<exists>bs. energy_buckets (e_aggregation_applied res) t0 t1 = Some (Inr bs) \<and>
           aggregated res =
             List.map_filter
               (kept_entry (computed_delta (e_aggregation_applied res)
                  (preprocess (get_energy_readings db mid t0 t1 (Some ph))))) bs \<and>
           length (aggregated res) =
             length (filter (\<lambda>b. \<exists>x. computed_delta (e_aggregation_applied res)
                        (preprocess (get_energy_readings db mid t0 t1 (Some ph))) b = Some x \<and> 0 \<le> x)
                       bs)))"
proof (intro impI conjI)
  assume r: "get_energy_aggregated db mid t0 t1 ph agg = Some (Inr res)"
  show "\<forall>d \<in> set (aggregated res). 0 \<le> energy_kwh d"
  proof (cases "e_aggregation_applied res \<noteq> ''none'' \<and>
             2 \<le> length (get_energy_readings db mid t0 t1 (Some ph))")
    case True
    with get_energy_aggregated_kept[OF r] kept_entries_nonneg show ?thesis by metis
  next
    case False
    with get_energy_aggregated_empty[OF r] show ?thesis by simp
  qed
  assume "e_aggregation_applied res \<noteq> ''none'' \<and>
      2 \<le> length (get_energy_readings db mid t0 t1 (Some ph))"
  with get_energy_aggregated_kept[OF r] obtain bs where
    bs: "energy_buckets (e_aggregation_applied res) t0 t1 = Some (Inr bs)"
    "aggregated res =
             List.map_filter
               (kept_entry (computed_delta (e_aggregation_applied res)
                  (preprocess (get_energy_readings db mid t0 t1 (Some ph))))) bs"
    "\<forall>b \<in> set bs. \<forall>x.
              computed_delta (e_aggregation_applied res)
                (preprocess (get_energy_readings db mid t0 t1 (Some ph))) b = Some x \<and> 0 \<le> x \<longrightarrow>
              bucket_start b \<noteq> None" by blast
  from length_map_filter_kept[OF bs(3)] bs(1,2)
  show "\<exists>bs. energy_buckets (e_aggregation_applied res) t0 t1 = Some (Inr bs) \<and>
           aggregated res =
             List.map_filter
               (kept_entry (computed_delta (e_aggregation_applied res)
                  (preprocess (get_energy_readings db mid t0 t1 (Some ph))))) bs \<and>
           length (aggregated res) =
             length (filter (\<lambda>b. \<exists>x. computed_delta (e_aggregation_applied res)
                        (preprocess (get_energy_readings db mid t0 t1 (Some ph))) b = Some x \<and> 0 \<le> x)
                       bs)"
    by auto
qed

lemma reset_store_30min:
  "get_energy_aggregated reset_store ''meter_001'' 0 10000000000 ''A'' ''30min'' =
     Some (Inr \<lparr>aggregated = [\<lparr>d_timestamp = 0, energy_kwh = 2 / 3\<rparr>,
                               \<lparr>d_timestamp = 1800000000, energy_kwh = 1\<rparr>,
                               \<lparr>d_timestamp = 3600000000, energy_kwh = 4 / 3\<rparr>,
                               \<lparr>d_timestamp = 9000000000, energy_kwh = 0\<rparr>],
                 raw_total_kwh = - 3, raw_readings_count = 5, e_aggregation_applied = ''30min''\<rparr>)"
  by code_simp

lemma reset_store_30min_buckets:
  "energy_buckets ''30min'' 0 10000000000 =
     Some (Inr [mk_bucket True 0 1800000000, mk_bucket True 1800000000 3600000000,
                mk_bucket True 3600000000 5400000000, mk_bucket True 5400000000 7200000000,
                mk_bucket True 7200000000 9000000000, mk_bucket True 9000000000 10800000000])"
  by code_simp

lemma reset_store_30min_dropped:
  "computed_delta ''30min'' (preprocess reset_readings) (mk_bucket True 5400000000 7200000000) =
     Some (- 3)"
  "computed_delta ''30min'' (preprocess reset_readings) (mk_bucket True 7200000000 9000000000) =
     Some (- 3)"
  by code_simp+

theorem energy_deltas_nonneg_witness:
  "get_energy_aggregated reset_store ''meter_001'' 0 10000000000 ''A'' ''30min'' =
     Some (Inr \<lparr>aggregated = [\<lparr>d_timestamp = 0, energy_kwh = 2 / 3\<rparr>,
                               \<lparr>d_timestamp = 1800000000, energy_kwh = 1\<rparr>,
                               \<lparr>d_timestamp = 3600000000, energy_kwh = 4 / 3\<rparr>,
                               \<lparr>d_timestamp = 9000000000, energy_kwh = 0\<rparr>],
                 raw_total_kwh = - 3, raw_readings_count = 5, e_aggregation_applied = ''30min''\<rparr>) \<and>
   ''30min'' \<noteq> ''none'' \<and>
   2 \<le> length (get_energy_readings reset_store ''meter_001'' 0 10000000000 (Some ''A'')) \<and>
   energy_buckets ''30min'' 0 10000000000 =
     Some (Inr [mk_bucket True 0 1800000000, mk_bucket True 1800000000 3600000000,
                mk_bucket True 3600000000 5400000000, mk_bucket True 5400000000 7200000000,
                mk_bucket True 7200000000 9000000000, mk_bucket True 9000000000 10800000000]) \<and>
   computed_delta ''30min'' (preprocess reset_readings) (mk_bucket True 5400000000 7200000000) =
     Some (- 3) \<and>
   computed_delta ''30min'' (preprocess reset_readings) (mk_bucket True 7200000000 9000000000) =
     Some (- 3) \<and>
   length (filter (\<lambda>b. \<exists>x. computed_delta ''30min'' (preprocess reset_readings) b = Some x \<and> 0 \<le> x)
     [mk_bucket True 0 1800000000, mk_bucket True 1800000000 3600000000,
      mk_bucket True 3600000000 5400000000, mk_bucket True 5400000000 7200000000,
      mk_bucket True 7200000000 9000000000, mk_bucket True 9000000000 10800000000]) = 4"
proof -
  have n: "2 \<le> length (get_energy_readings reset_store ''meter_001'' 0 10000000000 (Some ''A''))"
    by (simp add: reset_store_readings reset_readings_def)
  from energy_deltas_nonneg[of reset_store "''meter_001''" 0 10000000000 "''A''" "''30min''"
      "\<lparr>aggregated = [\<lparr>d_timestamp = 0, energy_kwh = 2 / 3\<rparr>,
                               \<lparr>d_timestamp = 1800000000, energy_kwh = 1\<rparr>,
                               \<lparr>d_timestamp = 3600000000, energy_kwh = 4 / 3\<rparr>,
                               \<lparr>d_timestamp = 9000000000, energy_kwh = 0\<rparr>],
                 raw_total_kwh = - 3, raw_readings_count = 5, e_aggregation_applied = ''30min''\<rparr>"]
    reset_store_30min n
  have "\<exists>bs. energy_buckets ''30min'' 0 10000000000 = Some (Inr bs) \<and>
     length (filter (\<lambda>b. \<exists>x. computed_delta ''30min'' (preprocess reset_readings) b = Some x \<and> 0 \<le> x) bs)
       = 4"
    by (auto simp: reset_store_readings)
  with reset_store_30min_buckets reset_store_30min reset_store_30min_dropped n show ?thesis
    by simp
qed

lemma reset_store_1hour_buckets:
  "coarse_buckets True ''1hour'' (replace_second_microsecond_0 0) 10000000000 =
     Some (Inr [mk_bucket True 0 3600000000, mk_bucket True 3600000000 7200000000,
                mk_bucket True 7200000000 10800000000])"
  by code_simp

lemma reset_store_1hour_inside:
  "length (inside (mk_bucket True 0 3600000000) (preprocess reset_readings)) = 1"
  by code_simp

text \<open>
  Claim C4, as stated, fails: at \<open>1hour\<close>, the bucket from 0:00 to 1:00 holds exactly one
  reading (at 0:10) and is returned all the same, with delta 0.
\<close>

theorem single_sample_bucket_counterexample:
  "length (inside (mk_bucket True 0 3600000000)
     (preprocess (get_energy_readings reset_store ''meter_001'' 0 10000000000 (Some ''A'')))) = 1 \<and>
   coarse_buckets True ''1hour'' (replace_second_microsecond_0 0) 10000000000 =
     Some (Inr [mk_bucket True 0 3600000000, mk_bucket True 3600000000 7200000000,
                mk_bucket True 7200000000 10800000000]) \<and>
   get_energy_aggregated reset_store ''meter_001'' 0 10000000000 ''A'' ''1hour'' =
     Some (Inr \<lparr>aggregated = [\<lparr>d_timestamp = 0, energy_kwh = 0\<rparr>,
                               \<lparr>d_timestamp = 3600000000, energy_kwh = 2\<rparr>,
                               \<lparr>d_timestamp = 7200000000, energy_kwh = 1\<rparr>],
                 raw_total_kwh = - 3, raw_readings_count = 5, e_aggregation_applied = ''1hour''\<rparr>)"
  using reset_store_1hour reset_store_1hour_buckets reset_store_1hour_inside
  by (simp add: reset_store_readings)

lemma kept_entry_Some:
  "kept_entry f b = Some d \<longleftrightarrow>
     (\<exists>x c. f b = Some x \<and> bucket_start b = Some c \<and> 0 \<le> x \<and> d = \<lparr>d_timestamp = c, energy_kwh = x\<rparr>)"
  by (auto simp: kept_entry_def split: option.splits)

lemma first_last_delta_single:
  assumes "length (inside b rs) = 1"
  shows "first_last_delta rs b = Some 0"
proof -
  from assms obtain r where "inside b rs = [r]"
    by (cases "inside b rs") auto
  then show ?thesis by (simp add: first_last_delta_def)
qed

text \<open>
  Claim C4, amended. At a resolution whose name does not end in \<open>min\<close> (the hour, day,
  week and month resolutions), with at least two raw readings, the returned list holds
  one entry for each bucket that has a reading inside and whose last reading inside is
  not below its first one, and none for any other bucket; the entry's delta is the
  counter of the last reading inside the bucket minus that of the first reading inside.
  A bucket without a reading inside has no entry; a bucket with exactly one reading
  inside has an entry with delta 0.
\<close>

theorem first_last_deltas:
  "get_energy_aggregated db mid t0 t1 ph agg = Some (Inr res) \<and>
   \<not> endswith (e_aggregation_applied res) ''min'' \<and> e_aggregation_applied res \<noteq> ''none'' \<and>
   2 \<le> length (get_energy_readings db mid t0 t1 (Some ph)) \<longrightarrow>
     (\<exists>bs. coarse_buckets True (e_aggregation_applied res) (replace_second_microsecond_0 t0) t1 =
             Some (Inr bs) \<and>
        aggregated res =
          List.map_filter
            (kept_entry (first_last_delta (preprocess (get_energy_readings db mid t0 t1 (Some ph)))))
            bs \<and>
        (\<forall>d \<in> set (aggregated res). \<exists>b \<in> set bs.
           bucket_start b = Some (d_timestamp d) \<and>
           inside b (preprocess (get_energy_readings db mid t0 t1 (Some ph))) \<noteq> [] \<and>
           energy_kwh d =
             total_kwh (last (inside b (preprocess (get_energy_readings db mid t0 t1 (Some ph))))) -
             total_kwh (hd (inside b (preprocess (get_energy_readings db mid t0 t1 (Some ph)))))) \<and>
        (\<forall>b \<in> set bs.
           (inside b (preprocess (get_energy_readings db mid t0 t1 (Some ph))) = [] \<longrightarrow>
              kept_entry (first_last_delta (preprocess (get_energy_readings db mid t0 t1 (Some ph)))) b
                = None) \<and>
           (length (inside b (preprocess (get_energy_readings db mid t0 t1 (Some ph)))) = 1 \<longrightarrow>
              (\<exists>c. bucket_start b = Some c \<and>
                 kept_entry (first_last_delta (preprocess (get_energy_readings db mid t0 t1 (Some ph)))) b
                   = Some \<lparr>d_timestamp = c, energy_kwh = 0\<rparr>))))"
proof (intro impI, elim conjE)
  let ?rs = "preprocess (get_energy_readings db mid t0 t1 (Some ph))"
  assume r: "get_energy_aggregated db mid t0 t1 ph agg = Some (Inr res)"
    and m: "\<not> endswith (e_aggregation_applied res) ''min''"
    and n: "e_aggregation_applied res \<noteq> ''none''"
    and l: "2 \<le> length (get_energy_readings db mid t0 t1 (Some ph))"
  from get_energy_aggregated_kept[OF r n l] m obtain bs where
    bs: "coarse_buckets True (e_aggregation_applied res) (replace_second_microsecond_0 t0) t1 =
             Some (Inr bs)"
    "aggregated res = List.map_filter (kept_entry (first_last_delta ?rs)) bs"
    "\<forall>b \<in> set bs. \<forall>x. first_last_delta ?rs b = Some x \<and> 0 \<le> x \<longrightarrow> bucket_start b \<noteq> None"
    by (auto simp: energy_buckets_def computed_delta_def)
  have a: "\<exists>b \<in> set bs. bucket_start b = Some (d_timestamp d) \<and> inside b ?rs \<noteq> [] \<and>
           energy_kwh d = total_kwh (last (inside b ?rs)) - total_kwh (hd (inside b ?rs))"
    if "d \<in> set (aggregated res)" for d
  proof -
    from map_filter_kept_entry_mem[OF that[unfolded bs(2)]] obtain b where
      b: "b \<in> set bs" "bucket_start b = Some (d_timestamp d)"
      "first_last_delta ?rs b = Some (energy_kwh d)" by blast
    from b(3) have "inside b ?rs \<noteq> [] \<and>
        energy_kwh d = total_kwh (last (inside b ?rs)) - total_kwh (hd (inside b ?rs))"
      by (auto simp: first_last_delta_def split: if_splits)
    with b(1,2) show ?thesis by blast
  qed
  have e: "kept_entry (first_last_delta ?rs) b = None" if "inside b ?rs = []" for b
    using that by (simp add: kept_entry_def first_last_delta_def)
  have s: "\<exists>c. bucket_start b = Some c \<and>
             kept_entry (first_last_delta ?rs) b = Some \<lparr>d_timestamp = c, energy_kwh = 0\<rparr>"
    if "b \<in> set bs" "length (inside b ?rs) = 1" for b
  proof -
    from first_last_delta_single[OF that(2)] have f: "first_last_delta ?rs b = Some 0" .
    with bs(3) that(1) obtain c where "bucket_start b = Some c" by fastforce
    with f show ?thesis by (simp add: kept_entry_def)
  qed
  from bs(1,2) a e s show "\<exists>bs. coarse_buckets True (e_aggregation_applied res)
          (replace_second_microsecond_0 t0) t1 = Some (Inr bs) \<and>
        aggregated res = List.map_filter (kept_entry (first_last_delta ?rs)) bs \<and>
        (\<forall>d \<in> set (aggregated res). \<exists>b \<in> set bs.
           bucket_start b = Some (d_timestamp d) \<and> inside b ?rs \<noteq> [] \<and>
           energy_kwh d = total_kwh (last (inside b ?rs)) - total_kwh (hd (inside b ?rs))) \<and>
        (\<forall>b \<in> set bs.
           (inside b ?rs = [] \<longrightarrow> kept_entry (first_last_delta ?rs) b = None) \<and>
           (length (inside b ?rs) = 1 \<longrightarrow>
              (\<exists>c. bucket_start b = Some c \<and>
                 kept_entry (first_last_delta ?rs) b = Some \<lparr>d_timestamp = c, energy_kwh = 0\<rparr>)))"
    by blast
qed

theorem first_last_deltas_witness:
  "get_energy_aggregated reset_store ''meter_001'' 0 10000000000 ''A'' ''1hour'' =
     Some (Inr \<lparr>aggregated = [\<lparr>d_timestamp = 0, energy_kwh = 0\<rparr>,
                               \<lparr>d_timestamp = 3600000000, energy_kwh = 2\<rparr>,
                               \<lparr>d_timestamp = 7200000000, energy_kwh = 1\<rparr>],
                 raw_total_kwh = - 3, raw_readings_count = 5, e_aggregation_applied = ''1hour''\<rparr>) \<and>
   \<not> endswith ''1hour'' ''min'' \<and> ''1hour'' \<noteq> ''none'' \<and>
   2 \<le> length (get_energy_readings reset_store ''meter_001'' 0 10000000000 (Some ''A'')) \<and>
   [\<lparr>d_timestamp = 0, energy_kwh = 0\<rparr>, \<lparr>d_timestamp = 3600000000, energy_kwh = 2\<rparr>,
    \<lparr>d_timestamp = 7200000000, energy_kwh = 1\<rparr>] =
     List.map_filter (kept_entry (first_last_delta (preprocess reset_readings)))
       [mk_bucket True 0 3600000000, mk_bucket True 3600000000 7200000000,
        mk_bucket True 7200000000 10800000000] \<and>
   length (inside (mk_bucket True 0 3600000000) (preprocess reset_readings)) = 1 \<and>
   kept_entry (first_last_delta (preprocess reset_readings)) (mk_bucket True 0 3600000000) =
     Some \<lparr>d_timestamp = 0, energy_kwh = 0\<rparr>"
proof -
  let ?R = "\<lparr>aggregated = [\<lparr>d_timestamp = 0, energy_kwh = 0\<rparr>,
                               \<lparr>d_timestamp = 3600000000, energy_kwh = 2\<rparr>,
                               \<lparr>d_timestamp = 7200000000, energy_kwh = 1\<rparr>],
                 raw_total_kwh = - 3, raw_readings_count = 5, e_aggregation_applied = ''1hour''\<rparr>"
  let ?bs = "[mk_bucket True 0 3600000000, mk_bucket True 3600000000 7200000000,
        mk_bucket True 7200000000 10800000000]"
  have h: "\<not> endswith ''1hour'' ''min''" "''1hour'' \<noteq> ''none''"
    "2 \<le> length (get_energy_readings reset_store ''meter_001'' 0 10000000000 (Some ''A''))"
    by (simp_all add: endswith_def reset_store_readings reset_readings_def)
  from first_last_deltas[of reset_store "''meter_001''" 0 10000000000 "''A''" "''1hour''" ?R]
    reset_store_1hour h reset_store_1hour_buckets
  have t: "aggregated ?R =
          List.map_filter (kept_entry (first_last_delta (preprocess reset_readings))) ?bs \<and>
        (\<forall>b \<in> set ?bs.
           (length (inside b (preprocess reset_readings)) = 1 \<longrightarrow>
              (\<exists>c. bucket_start b = Some c \<and>
                 kept_entry (first_last_delta (preprocess reset_readings)) b
                   = Some \<lparr>d_timestamp = c, energy_kwh = 0\<rparr>)))"
    by (simp add: reset_store_readings)
  then have "\<exists>c. bucket_start (mk_bucket True 0 3600000000) = Some c \<and>
       kept_entry (first_last_delta (preprocess reset_readings)) (mk_bucket True 0 3600000000)
         = Some \<lparr>d_timestamp = c, energy_kwh = 0\<rparr>"
    using reset_store_1hour_inside by simp
  then have k: "kept_entry (first_last_delta (preprocess reset_readings)) (mk_bucket True 0 3600000000)
         = Some \<lparr>d_timestamp = 0, energy_kwh = 0\<rparr>"
    by (auto simp: mk_bucket_def)
  from t have "[\<lparr>d_timestamp = 0, energy_kwh = 0\<rparr>, \<lparr>d_timestamp = 3600000000, energy_kwh = 2\<rparr>,
    \<lparr>d_timestamp = 7200000000, energy_kwh = 1\<rparr>] =
     List.map_filter (kept_entry (first_last_delta (preprocess reset_readings))) ?bs" by simp
  with reset_store_1hour h reset_store_1hour_inside k show ?thesis by simp
qed

text \<open>
  Claim C6 against the code. The claim, and the function's own docstring and comments,
  have the two rows of the hour from 13:00 replaced by one row of their means at 13:00.
  The pass, run in November 2023 with the service's arguments (90 days, 1 hour), inserts
  the row of means with the timestamp 02:00 of the next day (the hour is added to a
  timestamp that already carries it) and, the new row lying in another hour, keeps the raw
  row with the largest id: the raw row of 13:20 and the row of means are both present,
  and no row stands at 13:00.
\<close>

theorem compaction_shifts_hour:
  "start_of_hour 1577884200000000 = 1577883600000000 \<and>
   readings (fst (aggregate_old_data hour_store 1700000000000000 90 1)) =
     [\<lparr>r_id = 2, r_timestamp = 1577884800000000, r_meter_id = ''meter_001'', voltage_rms = 232,
       current_rms = 3, active_power = 200, reactive_power = 0, apparent_power = 200,
       power_factor = 1, frequency = 50\<rparr>,
      \<lparr>r_id = 3, r_timestamp = 1577930400000000, r_meter_id = ''meter_001'', voltage_rms = 231,
       current_rms = 2, active_power = 150, reactive_power = 0, apparent_power = 150,
       power_factor = 1, frequency = 50\<rparr>] \<and>
   snd (aggregate_old_data hour_store 1700000000000000 90 1) = 1"
  by code_simp















subsection \<open>Energy queries with \<open>auto\<close> return a result\<close>





































subsection \<open>Order and range of the returned buckets\<close>













end
